theory Spec2Isabelle
  imports Complex_Main "HOL-Library.Word"
begin

section \<open>NexoWatt EMS simulator: a shallow embedding of main.js\<close>

text \<open>
  The adapter works on JavaScript numbers. Finite numbers are modelled as \<^typ>\<open>real\<close>
  (rounding of IEEE doubles is not modelled); the three non-finite doubles are kept as
  constructors of their own wherever the source tests for them (\<open>Number.isNaN\<close>,
  \<open>Number.isFinite\<close>). Values arriving from outside (command writes, published values) are
  JavaScript values of any type.
\<close>

subsection \<open>JavaScript values\<close>

datatype jsnum = Fin real | PosInf | NegInf | NaN

datatype jsval = JUndefined | JNull | JBool bool | JNumber jsnum | JString string

text \<open>
  What the JavaScript runtime itself computes on strings and numbers is not code of the
  adapter; it is passed as a parameter: \<open>StringToNumber\<close> is \<open>Number(s)\<close> on a string,
  \<open>NumberToString\<close> is \<open>String(n)\<close> on a number, \<open>toFixed\<close> is \<open>n.toFixed(d)\<close>,
  \<open>DateParse\<close> is \<open>new Date(s).getTime()\<close> (\<open>None\<close> for an invalid date) and
  \<open>tzOffsetMs\<close> is the offset of local time from UTC in milliseconds.
\<close>

record js_runtime =
  StringToNumber :: "string \<Rightarrow> jsnum"
  NumberToString :: "jsnum \<Rightarrow> string"
  toFixed :: "nat \<Rightarrow> real \<Rightarrow> string"
  DateParse :: "string \<Rightarrow> int option"
  tzOffsetMs :: int

text \<open>\<open>Number(value)\<close>.\<close>

fun Number :: "js_runtime \<Rightarrow> jsval \<Rightarrow> jsnum" where
  "Number rt JUndefined = NaN"
| "Number rt JNull = Fin 0"
| "Number rt (JBool b) = Fin (if b then 1 else 0)"
| "Number rt (JNumber n) = n"
| "Number rt (JString s) = StringToNumber rt s"

text \<open>\<open>!!value\<close>: the falsy values are undefined, null, false, 0, NaN and the empty string.\<close>

fun truthy :: "jsval \<Rightarrow> bool" where
  "truthy JUndefined = False"
| "truthy JNull = False"
| "truthy (JBool b) = b"
| "truthy (JNumber (Fin x)) = (x \<noteq> 0)"
| "truthy (JNumber NaN) = False"
| "truthy (JNumber n) = True"
| "truthy (JString s) = (s \<noteq> [])"

text \<open>
  \<open>clamp(value, min, max)\<close>: \<open>min\<close> for NaN, else \<open>Math.min(max, Math.max(min, v))\<close>.
  The bounds are finite at every call site. \<open>clampN\<close> is the function on a number that is
  already converted, \<open>clampV\<close> the one on an arbitrary value, \<open>clamp\<close> the one on a finite
  number (every field of the plant model is finite).
\<close>

fun clampN :: "jsnum \<Rightarrow> real \<Rightarrow> real \<Rightarrow> real" where
  "clampN NaN lo hi = lo"
| "clampN (Fin v) lo hi = min hi (max lo v)"
| "clampN PosInf lo hi = hi"
| "clampN NegInf lo hi = min hi lo"

definition clampV :: "js_runtime \<Rightarrow> jsval \<Rightarrow> real \<Rightarrow> real \<Rightarrow> real" where
  "clampV rt v lo hi = clampN (Number rt v) lo hi"

definition clamp :: "real \<Rightarrow> real \<Rightarrow> real \<Rightarrow> real" where
  "clamp v lo hi = clampN (Fin v) lo hi"

subsection \<open>LcgRandom\<close>

text \<open>
  The generator's state is an unsigned 32-bit integer: \<open>1664525 * state + 1013904223\<close> stays
  below \<open>2^53\<close>, so the double product is exact and \<open>>>> 0\<close> reduces it modulo \<open>2^32\<close>.
\<close>

record LcgRandom =
  state :: "32 word"
  spareNormal :: "real option"

text \<open>\<open>x >>> 0\<close> on a finite number: truncate towards zero, then reduce modulo \<open>2^32\<close>.\<close>

definition ToUint32 :: "real \<Rightarrow> 32 word" where
  "ToUint32 x = word_of_int (if 0 \<le> x then \<lfloor>x\<rfloor> else \<lceil>x\<rceil>)"

text \<open>The constructor: \<open>(Number(seed) >>> 0) || 1\<close>.\<close>

definition new_LcgRandom :: "real \<Rightarrow> LcgRandom" where
  "new_LcgRandom seed =
     \<lparr> state = (if ToUint32 seed = 0 then 1 else ToUint32 seed), spareNormal = None \<rparr>"

text \<open>\<open>next()\<close>.\<close>

definition rng_next :: "LcgRandom \<Rightarrow> real \<times> LcgRandom" where
  "rng_next g =
     (let s = 1664525 * state g + 1013904223
      in (real (unat s) / 4294967296, g\<lparr>state := s\<rparr>))"

text \<open>\<open>let u = 0; while (u === 0) u = this.next();\<close>\<close>

function draw_nonzero :: "LcgRandom \<Rightarrow> real \<times> LcgRandom" where
  "draw_nonzero g =
     (case rng_next g of (u, g') \<Rightarrow> if u = 0 then draw_nonzero g' else (u, g'))"
  by pat_completeness auto

lemma rng_next_zero_iff: "fst (rng_next g) = 0 \<longleftrightarrow> state (snd (rng_next g)) = 0"
  by (simp add: rng_next_def Let_def unsigned_eq_0_iff)

lemma rng_next_after_zero: "state g = 0 \<Longrightarrow> fst (rng_next g) \<noteq> 0"
  by (simp add: rng_next_def Let_def)

termination draw_nonzero
proof (relation "measure (\<lambda>g. if fst (rng_next g) = 0 then 1 else 0)", goal_cases)
  case 1
  show ?case by simp
next
  case (2 g u g')
  then have z: "fst (rng_next g) = 0" and g': "g' = snd (rng_next g)"
    by (metis fst_conv, metis snd_conv)
  then have "state g' = 0" using rng_next_zero_iff by simp
  then have "fst (rng_next g') \<noteq> 0" by (rule rng_next_after_zero)
  with z show ?case by simp
qed

declare draw_nonzero.simps [simp del]

text \<open>\<open>normal(mu, sigma)\<close>: Box-Muller with a spare.\<close>

definition rng_normal :: "real \<Rightarrow> real \<Rightarrow> LcgRandom \<Rightarrow> real \<times> LcgRandom" where
  "rng_normal mu sigma g =
     (case spareNormal g of
        Some z \<Rightarrow> (mu + sigma * z, g\<lparr>spareNormal := None\<rparr>)
      | None \<Rightarrow>
          (case draw_nonzero g of (u, g1) \<Rightarrow>
           case draw_nonzero g1 of (v, g2) \<Rightarrow>
             let mag = sqrt (- 2 * ln u);
                 z0 = mag * cos (2 * pi * v);
                 z1 = mag * sin (2 * pi * v)
             in (mu + sigma * z0, g2\<lparr>spareNormal := Some z1\<rparr>)))"

text \<open>A sequence of calls on one generator, and the stream of values it returns.\<close>

datatype call = Next | Normal real real

fun rng_call :: "call \<Rightarrow> LcgRandom \<Rightarrow> real \<times> LcgRandom" where
  "rng_call Next g = rng_next g"
| "rng_call (Normal mu sigma) g = rng_normal mu sigma g"

fun rng_stream :: "call list \<Rightarrow> LcgRandom \<Rightarrow> real list \<times> LcgRandom" where
  "rng_stream [] g = ([], g)"
| "rng_stream (c # cs) g =
     (case rng_call c g of (x, g') \<Rightarrow>
      case rng_stream cs g' of (xs, g'') \<Rightarrow> (x # xs, g''))"


subsection \<open>The plant model\<close>

text \<open>
  A charge point. The nested objects \<open>sim\<close>, \<open>ctrl\<close>, \<open>vehicle\<close> and \<open>meas\<close> are flattened,
  \<open>ctrl.limit_kw\<close> is the field \<open>ctrl_limit_kw\<close>; \<open>id\<close> and \<open>type\<close> are \<open>cid\<close> and \<open>ctype\<close>.
  \<open>vehicle.departure_ts\<close> is the parsed deadline, \<open>None\<close> for \<open>null\<close>.
\<close>

record charger =
  cid :: string
  ctype :: string
  max_kw :: real
  sim_faulted :: bool
  sim_unavailable :: bool
  sim_meter_freeze :: bool
  ctrl_enabled :: bool
  ctrl_limit_kw :: real
  ctrl_plugged :: bool
  ctrl_priority :: real
  vehicle_id :: string
  vehicle_soc_pct :: real
  vehicle_capacity_kwh :: real
  vehicle_max_charge_kw :: real
  vehicle_target_soc_pct :: real
  vehicle_departure_time :: string
  vehicle_departure_ts :: "int option"
  meas_status :: string
  meas_power_kw :: real
  meas_energy_kwh :: real

text \<open>
  \<open>this._model\<close>, flattened the same way. The forward price curve
  \<open>tariff.price_next_24h_json\<close> is a string written for the EMS and never read again; it
  is left out.
\<close>

record plant =
  grid_available :: bool
  grid_limit_kw :: real
  grid_base_load_kw :: real
  grid_power_kw :: real
  grid_over_limit :: bool
  tariff_mode :: string
  tariff_price_ct_per_kwh :: real
  pv_installed_kwp :: real
  pv_weather_factor :: real
  pv_power_kw :: real
  pv_override_enabled :: bool
  pv_override_power_kw :: real
  storage_capacity_kwh :: real
  storage_max_charge_kw :: real
  storage_max_discharge_kw :: real
  storage_soc_pct :: real
  storage_power_kw :: real
  storage_ctrl_enabled :: bool
  storage_ctrl_power_set_kw :: real
  heatpump_power_kw :: real
  heatpump_ctrl_enabled :: bool
  heatpump_ctrl_power_set_kw :: real
  chp_power_kw :: real
  chp_ctrl_enabled :: bool
  chp_ctrl_power_set_kw :: real
  generator_power_kw :: real
  generator_ctrl_enabled :: bool
  generator_ctrl_power_set_kw :: real
  evcs_chargers :: "charger list"

subsection \<open>Profiles\<close>

text \<open>\<open>solarProfile01(date)\<close>, on \<open>hour = date.getHours() + date.getMinutes() / 60\<close>.\<close>

definition solarProfile01 :: "real \<Rightarrow> real" where
  "solarProfile01 hour =
     (let sunrise = 6; sunset = 20
      in if hour \<le> sunrise \<or> hour \<ge> sunset then 0
         else let x = (hour - sunrise) / (sunset - sunrise) in sin (pi * x))"

text \<open>\<open>dcTaperFactor(socPct)\<close>.\<close>

definition dcTaperFactor :: "real \<Rightarrow> real" where
  "dcTaperFactor socPct =
     (let soc = clamp socPct 0 100
      in if soc \<le> 80 then 1
         else let x = (soc - 80) / 20 in clamp (1 - 0.8 * x) 0.2 1)"

subsection \<open>One tick of the physics\<close>

text \<open>
  \<open>_tick\<close>, the section on one charge point that charges (lines 2999-3014): the ceiling
  \<open>Math.min(limitKw, ch.max_kw, ch.vehicle.max_charge_kw)\<close>, the DC taper, the clamp to the
  energy still needed and the clamp to \<open>[0, max_kw]\<close>.
\<close>

definition targetSoc :: "charger \<Rightarrow> real" where
  "targetSoc ch = clamp (vehicle_target_soc_pct ch) 0 100"

definition capKwh :: "charger \<Rightarrow> real" where
  "capKwh ch = max 0.1 (vehicle_capacity_kwh ch)"

definition energyNeedKwh :: "charger \<Rightarrow> real" where
  "energyNeedKwh ch = max 0 ((targetSoc ch - vehicle_soc_pct ch) / 100 * capKwh ch)"

definition ceiling_kw :: "charger \<Rightarrow> real" where
  "ceiling_kw ch =
     (let limitKw = clamp (ctrl_limit_kw ch) 0 10000
      in min limitKw (min (max_kw ch) (vehicle_max_charge_kw ch)))"

definition tapered_kw :: "charger \<Rightarrow> real" where
  "tapered_kw ch =
     (if ctype ch = ''dc'' then ceiling_kw ch * dcTaperFactor (vehicle_soc_pct ch)
      else ceiling_kw ch)"

definition charge_power :: "real \<Rightarrow> charger \<Rightarrow> real" where
  "charge_power dtH ch =
     (let p = tapered_kw ch;
          maxStepKwh = max 0 (p * dtH);
          p = (if maxStepKwh > energyNeedKwh ch \<and> dtH > 0 then energyNeedKwh ch / dtH else p)
      in clamp p 0 (max_kw ch))"

text \<open>The guards in front of the charging branch of the loop body, all passed.\<close>

definition is_charging :: "charger \<Rightarrow> bool" where
  "is_charging ch \<longleftrightarrow>
     \<not> sim_unavailable ch \<and> \<not> sim_faulted ch \<and> \<not> sim_meter_freeze ch \<and> ctrl_plugged ch
     \<and> \<not> vehicle_soc_pct ch \<ge> targetSoc ch - 0.01 \<and> ctrl_enabled ch"

text \<open>
  The body of the loop over the charge points: the charge point after the tick, what it
  adds to \<open>evTotalPower\<close> and what it adds to \<open>evTotalEnergy\<close>. The branches are the
  source's, in its order; each \<open>continue\<close> is a branch that returns.
\<close>

definition tick_charger :: "real \<Rightarrow> charger \<Rightarrow> charger \<times> real \<times> real" where
  "tick_charger dtH ch =
     (if sim_unavailable ch then
        (ch\<lparr>meas_power_kw := 0, meas_status := ''Unavailable''\<rparr>, 0, meas_energy_kwh ch)
      else if sim_faulted ch then
        (ch\<lparr>meas_power_kw := 0, meas_status := ''Faulted''\<rparr>, 0, meas_energy_kwh ch)
      else if sim_meter_freeze ch then
        (ch, meas_power_kw ch, meas_energy_kwh ch)
      else if \<not> ctrl_plugged ch then
        (ch\<lparr>meas_power_kw := 0, meas_status := ''Available''\<rparr>, 0, meas_energy_kwh ch)
      else if vehicle_soc_pct ch \<ge> targetSoc ch - 0.01 then
        (ch\<lparr>meas_power_kw := 0, meas_status := ''Finished'',
            vehicle_soc_pct := clamp (vehicle_soc_pct ch) 0 100\<rparr>, 0, meas_energy_kwh ch)
      else if \<not> ctrl_enabled ch then
        (ch\<lparr>meas_power_kw := 0, meas_status := ''Preparing''\<rparr>, 0, meas_energy_kwh ch)
      else
        (let p = charge_power dtH ch;
             eff = 0.96;
             deliveredKwh = p * dtH * eff;
             energy = clamp (meas_energy_kwh ch + deliveredKwh) 0 1000000;
             deltaSocVeh = (deliveredKwh / capKwh ch) * 100
         in (ch\<lparr>meas_power_kw := p,
                meas_status := (if p > 0.01 then ''Charging'' else ''Suspended''),
                meas_energy_kwh := energy,
                vehicle_soc_pct := clamp (vehicle_soc_pct ch + deltaSocVeh) 0 100\<rparr>,
             p, energy)))"

text \<open>The loop \<open>for (const ch of this._model.evcs.chargers)\<close> with its two totals.\<close>

fun tick_chargers :: "real \<Rightarrow> charger list \<Rightarrow> charger list \<times> real \<times> real" where
  "tick_chargers dtH [] = ([], 0, 0)"
| "tick_chargers dtH (ch # chs) =
     (case tick_charger dtH ch of (ch', p, e) \<Rightarrow>
      case tick_chargers dtH chs of (chs', evTotalPower, evTotalEnergy) \<Rightarrow>
        (ch' # chs', p + evTotalPower, e + evTotalEnergy))"

text \<open>The tariff (current price; \<open>base = 32\<close>, \<open>amp = 10\<close>).\<close>

definition tick_tariff :: "real \<Rightarrow> plant \<times> LcgRandom \<Rightarrow> plant \<times> LcgRandom" where
  "tick_tariff hour mg =
     (case mg of (m, g) \<Rightarrow>
        if tariff_mode m = ''auto'' then
          (let daily = 32 + 10 * sin ((2 * pi * (hour - 7)) / 24)
           in case rng_normal 0 0.4 g of (noise, g') \<Rightarrow>
                (m\<lparr>tariff_price_ct_per_kwh := clamp (daily + noise) (- 500) 500\<rparr>, g'))
        else
          (m\<lparr>tariff_price_ct_per_kwh := clamp (tariff_price_ct_per_kwh m) (- 500) 500\<rparr>, g))"

text \<open>PV.\<close>

definition tick_pv :: "real \<Rightarrow> plant \<times> LcgRandom \<Rightarrow> plant \<times> LcgRandom" where
  "tick_pv hour mg =
     (case mg of (m, g) \<Rightarrow>
        if pv_override_enabled m then
          (m\<lparr>pv_power_kw := clamp (pv_override_power_kw m) 0 100000\<rparr>, g)
        else
          (let pvProfile = solarProfile01 hour
           in case rng_normal 0 0.02 g of (n, g') \<Rightarrow>
                let pvNoise = clamp n (- 0.05) 0.05
                in (m\<lparr>pv_power_kw :=
                        clamp (pv_installed_kwp m * pv_weather_factor m * pvProfile * (1 + pvNoise))
                          0 (max 0 (pv_installed_kwp m))\<rparr>, g')))"

text \<open>Flexible producers and the heat pump.\<close>

definition tick_devices :: "plant \<Rightarrow> plant" where
  "tick_devices m =
     m\<lparr>chp_power_kw := (if chp_ctrl_enabled m then clamp (chp_ctrl_power_set_kw m) 0 5000 else 0),
       generator_power_kw :=
         (if generator_ctrl_enabled m then clamp (generator_ctrl_power_set_kw m) 0 5000 else 0),
       heatpump_power_kw :=
         (if heatpump_ctrl_enabled m then clamp (heatpump_ctrl_power_set_kw m) 0 500 else 0)\<rparr>"

text \<open>
  Storage (lines 2929-2945). \<open>storagePower\<close> is the power after the clamp and the two SoC
  guards; \<open>Number(x) || 0\<close> is \<open>x\<close> on a finite number.
\<close>

definition storagePower :: "plant \<Rightarrow> real" where
  "storagePower m =
     (if storage_ctrl_enabled m then
        (let req = storage_ctrl_power_set_kw m;
             maxDis = storage_max_discharge_kw m;
             maxCh = storage_max_charge_kw m;
             p = clamp req (- maxCh) maxDis;
             p = (if storage_soc_pct m \<le> 0 \<and> p > 0 then 0 else p);
             p = (if storage_soc_pct m \<ge> 100 \<and> p < 0 then 0 else p)
         in p)
      else 0)"

definition tick_storage :: "real \<Rightarrow> plant \<Rightarrow> plant" where
  "tick_storage dtH m =
     (let p = storagePower m;
          m' = (if storage_ctrl_enabled m then
                  (let cap = max (1 / 1000000) (storage_capacity_kwh m);
                       deltaSoc = (- p * dtH / cap) * 100
                   in m\<lparr>storage_soc_pct := clamp (storage_soc_pct m + deltaSoc) 0 100\<rparr>)
                else m)
      in m'\<lparr>storage_power_kw := p\<rparr>)"

text \<open>EVCS: the loop, written back into the model; the totals go on to the grid balance.\<close>

definition tick_evcs :: "real \<Rightarrow> plant \<Rightarrow> plant \<times> real \<times> real" where
  "tick_evcs dtH m =
     (case tick_chargers dtH (evcs_chargers m) of (chs, evTotalPower, evTotalEnergy) \<Rightarrow>
        (m\<lparr>evcs_chargers := chs\<rparr>, evTotalPower, evTotalEnergy))"

text \<open>Base load noise and the grid balance (lines 3031-3048).\<close>

definition tick_grid :: "real \<Rightarrow> plant \<times> LcgRandom \<Rightarrow> plant \<times> LcgRandom" where
  "tick_grid evTotalPower mg =
     (case mg of (m, g) \<Rightarrow>
      case rng_normal 0 0.3 g of (n, g') \<Rightarrow>
        let baseNoise = clamp n (- 1.0) 1.0;
            baseLoad = clamp (grid_base_load_kw m + baseNoise) 0 5000;
            gridPower = baseLoad + heatpump_power_kw m + evTotalPower
                        - pv_power_kw m - chp_power_kw m - generator_power_kw m
                        - storage_power_kw m;
            gridPower = (if \<not> grid_available m then 0 else gridPower)
        in (m\<lparr>grid_power_kw := gridPower,
               grid_over_limit := (grid_available m \<and> gridPower > grid_limit_kw m + 1 / 1000000)\<rparr>,
            g'))"

text \<open>\<open>dtH\<close> from the two clock readings, in milliseconds.\<close>

definition dtSec :: "real \<Rightarrow> real \<Rightarrow> real" where
  "dtSec nowMs lastMs = max 0.2 (min 60 ((nowMs - lastMs) / 1000))"

definition dtH :: "real \<Rightarrow> real \<Rightarrow> real" where
  "dtH nowMs lastMs = dtSec nowMs lastMs / 3600"

text \<open>
  The physics of \<open>_tick\<close> (lines 2879-3048), in the source's order: tariff, PV, devices,
  storage, EVCS, grid. \<open>hour\<close> is the local time of day of \<open>now\<close> in hours.
\<close>

definition tick_physics :: "real \<Rightarrow> real \<Rightarrow> plant \<times> LcgRandom \<Rightarrow> plant \<times> LcgRandom" where
  "tick_physics hour dt mg =
     (case tick_pv hour (tick_tariff hour mg) of (m, g) \<Rightarrow>
      case tick_evcs dt (tick_storage dt (tick_devices m)) of (m', evTotalPower, evTotalEnergy) \<Rightarrow>
        tick_grid evTotalPower (m', g))"

subsection \<open>ChangePublisher: \<open>_setChanged\<close>\<close>

text \<open>
  \<open>this._cache\<close> is a \<open>Map\<close> from state ids to the last value written; \<open>get\<close> of an id
  that is not there is \<open>undefined\<close>.
\<close>

type_synonym cache = "string \<rightharpoonup> jsval"

text \<open>
  \<open>Math.abs(normalized - prev) > 1e-6\<close> on two values of type number: a comparison with
  NaN is false, and so is the one of an infinity with itself (their difference is NaN).
\<close>

fun num_changed :: "jsnum \<Rightarrow> jsnum \<Rightarrow> bool" where
  "num_changed (Fin a) (Fin b) = (\<bar>a - b\<bar> > 1 / 1000000)"
| "num_changed NaN b = False"
| "num_changed a NaN = False"
| "num_changed PosInf PosInf = False"
| "num_changed NegInf NegInf = False"
| "num_changed a b = True"

text \<open>
  \<open>_setChanged(relId, val)\<close>: the cache after the call, and the value handed to
  \<open>setStateAsync\<close> (\<open>None\<close> when nothing is written). Outside the case of two numbers the
  comparison is \<open>!==\<close>, which on values of these types is inequality.
\<close>

definition setChanged :: "string \<Rightarrow> jsval \<Rightarrow> cache \<Rightarrow> cache \<times> jsval option" where
  "setChanged relId val c =
     (let prev = (case c relId of None \<Rightarrow> JUndefined | Some p \<Rightarrow> p);
          normalized = (if val = JNumber NaN then JNull else val);
          changed = (case (normalized, prev) of
                       (JNumber a, JNumber b) \<Rightarrow> num_changed a b
                     | _ \<Rightarrow> normalized \<noteq> prev)
      in if changed then (c(relId \<mapsto> normalized), Some normalized) else (c, None))"

text \<open>A publish pass is a sequence of such calls; it returns the writes it made, in order.\<close>

fun publish :: "(string \<times> jsval) list \<Rightarrow> cache \<Rightarrow> cache \<times> (string \<times> jsval) list" where
  "publish [] c = (c, [])"
| "publish ((relId, val) # rest) c =
     (case setChanged relId val c of
        (c', None) \<Rightarrow> publish rest c'
      | (c', Some v) \<Rightarrow> (case publish rest c' of (c'', ws) \<Rightarrow> (c'', (relId, v) # ws)))"

subsection \<open>\<open>parseDepartureToTimestamp\<close>\<close>

text \<open>
  Strings are lists of 8-bit characters here. \<open>trim()\<close> removes white space and line
  terminators at both ends; \<open>\d\<close> is an ASCII digit.
\<close>

definition is_ws :: "char \<Rightarrow> bool" where
  "is_ws c \<longleftrightarrow>
     c \<in> set [CHR 0x09, CHR 0x0A, CHR 0x0B, CHR 0x0C, CHR 0x0D, CHR 0x20, CHR 0xA0]"

definition trim :: "string \<Rightarrow> string" where
  "trim s = rev (dropWhile is_ws (rev (dropWhile is_ws s)))"

definition is_digit :: "char \<Rightarrow> bool" where
  "is_digit c \<longleftrightarrow> c \<in> set ''0123456789''"

definition digit_val :: "char \<Rightarrow> nat" where
  "digit_val c = of_char c - 48"

text \<open>\<open>Number(s)\<close> on a string of decimal digits.\<close>

definition digits_val :: "string \<Rightarrow> nat" where
  "digits_val s = foldl (\<lambda>n c. 10 * n + digit_val c) 0 s"

text \<open>\<open>trimmed.match(/^(\d{1,2}):(\d{2})$/)\<close>: the two groups, or \<open>None\<close> for \<open>null\<close>.\<close>

fun match_HHMM :: "string \<Rightarrow> (string \<times> string) option" where
  "match_HHMM [h1, c, m1, m2] =
     (if is_digit h1 \<and> c = CHR '':'' \<and> is_digit m1 \<and> is_digit m2
      then Some ([h1], [m1, m2]) else None)"
| "match_HHMM [h1, h2, c, m1, m2] =
     (if is_digit h1 \<and> is_digit h2 \<and> c = CHR '':'' \<and> is_digit m1 \<and> is_digit m2
      then Some ([h1, h2], [m1, m2]) else None)"
| "match_HHMM s = None"

text \<open>
  Dates are milliseconds since the epoch. Local time is UTC plus \<open>tzOffsetMs\<close>, taken as
  constant (no daylight-saving change between \<open>now\<close> and the next day).
  \<open>setHours(hh, mm, 0, 0)\<close> keeps the local date and sets the local time of day;
  \<open>setDate(getDate() + 1)\<close> adds a day.
\<close>

definition dayMs :: int where
  "dayMs = 86400000"

definition setHours :: "int \<Rightarrow> int \<Rightarrow> int \<Rightarrow> int \<Rightarrow> int" where
  "setHours off date hh mm =
     (let local = date + off
      in local - local mod dayMs + hh * 3600000 + mm * 60000 - off)"

definition parseDepartureToTimestamp :: "js_runtime \<Rightarrow> jsval \<Rightarrow> int \<Rightarrow> int option" where
  "parseDepartureToTimestamp rt departureValue now =
     (case departureValue of
        JString s \<Rightarrow>
          (let trimmed = trim s;
               iso = (if CHR ''T'' \<in> set trimmed then DateParse rt trimmed else None)
           in case iso of
                Some t \<Rightarrow> Some t
              | None \<Rightarrow>
                  (case match_HHMM trimmed of
                     None \<Rightarrow> None
                   | Some (h, m) \<Rightarrow>
                       let hh = \<lfloor>clamp (real (digits_val h)) 0 23\<rfloor>;
                           mm = \<lfloor>clamp (real (digits_val m)) 0 59\<rfloor>;
                           candidate = setHours (tzOffsetMs rt) now hh mm
                       in Some (if candidate \<le> now then candidate + dayMs else candidate)))
      | _ \<Rightarrow> None)"

subsection \<open>Command writes: \<open>_normalizePowerKw\<close> and \<open>_applyWrite\<close>\<close>

text \<open>\<open>_normalizePowerKw(value)\<close>: \<open>Number(value)\<close>, 0 unless finite, divided by 1000.\<close>

definition normalizePowerKw :: "js_runtime \<Rightarrow> jsval \<Rightarrow> real" where
  "normalizePowerKw rt value =
     (let v = (case Number rt value of Fin x \<Rightarrow> x | _ \<Rightarrow> 0) in v / 1000)"

text \<open>\<open>String(value)\<close>, \<open>String(value || '')\<close> and \<open>toLowerCase()\<close> (on ASCII letters).\<close>

fun ToString :: "js_runtime \<Rightarrow> jsval \<Rightarrow> string" where
  "ToString rt JUndefined = ''undefined''"
| "ToString rt JNull = ''null''"
| "ToString rt (JBool b) = (if b then ''true'' else ''false'')"
| "ToString rt (JNumber n) = NumberToString rt n"
| "ToString rt (JString s) = s"

definition String_or_empty :: "js_runtime \<Rightarrow> jsval \<Rightarrow> string" where
  "String_or_empty rt value = (if truthy value then ToString rt value else [])"

definition toLowerCase :: "string \<Rightarrow> string" where
  "toLowerCase s =
     map (\<lambda>c. let n = (of_char c :: nat) in if 65 \<le> n \<and> n \<le> 90 then char_of (n + 32) else c) s"

text \<open>\<open>value === true || value === 1 || value === 'true'\<close>.\<close>

definition is_pressed :: "jsval \<Rightarrow> bool" where
  "is_pressed value \<longleftrightarrow>
     value = JBool True \<or> value = JNumber (Fin 1) \<or> value = JString ''true''"

text \<open>
  \<open>relId.match(/^evcs\.(c\d{2})\.(.+)$/)\<close>: the charge point id and the tail. The dot of
  \<open>.+\<close> matches no line terminator.
\<close>

definition match_evcs :: "string \<Rightarrow> (string \<times> string) option" where
  "match_evcs relId =
     (if take 5 relId = ''evcs.'' \<and> length relId \<ge> 10 \<and> relId ! 5 = CHR ''c''
         \<and> is_digit (relId ! 6) \<and> is_digit (relId ! 7) \<and> relId ! 8 = CHR ''.''
         \<and> list_all (\<lambda>c. c \<noteq> CHR 0x0A \<and> c \<noteq> CHR 0x0D) (drop 9 relId)
      then Some (take 3 (drop 5 relId), drop 9 relId)
      else None)"

text \<open>
  The branches on \<open>tail\<close> for the charge point found; \<open>None\<close> when no branch matches (the
  source falls through to \<open>return false\<close>). \<open>now\<close> is \<open>new Date()\<close> at the time of the write.
\<close>

definition applyWrite_charger ::
  "js_runtime \<Rightarrow> int \<Rightarrow> string \<Rightarrow> jsval \<Rightarrow> charger \<Rightarrow> charger option" where
  "applyWrite_charger rt now tail value charger =
     (if tail = ''ctrl.enabled'' then Some (charger\<lparr>ctrl_enabled := truthy value\<rparr>)
      else if tail = ''ctrl.limit_kw'' then
        Some (charger\<lparr>ctrl_limit_kw := clamp (normalizePowerKw rt value) 0 10000\<rparr>)
      else if tail = ''ctrl.plugged'' then
        Some (if \<not> truthy value
              then charger\<lparr>ctrl_plugged := truthy value, meas_power_kw := 0, meas_energy_kwh := 0,
                     meas_status := ''Available''\<rparr>
              else charger\<lparr>ctrl_plugged := truthy value\<rparr>)
      else if tail = ''ctrl.priority'' then Some (charger\<lparr>ctrl_priority := clampV rt value 1 10\<rparr>)
      else if tail = ''vehicle.soc_pct'' then
        Some (charger\<lparr>vehicle_soc_pct := clampV rt value 0 100\<rparr>)
      else if tail = ''vehicle.capacity_kwh'' then
        Some (charger\<lparr>vehicle_capacity_kwh := clampV rt value 1 1000\<rparr>)
      else if tail = ''vehicle.max_charge_kw'' then
        Some (charger\<lparr>vehicle_max_charge_kw := clampV rt value 0 2000\<rparr>)
      else if tail = ''vehicle.target_soc_pct'' then
        Some (charger\<lparr>vehicle_target_soc_pct := clampV rt value 0 100\<rparr>)
      else if tail = ''vehicle.departure_time'' then
        (let t = trim (String_or_empty rt value)
         in Some (charger\<lparr>vehicle_departure_time := t,
                    vehicle_departure_ts := parseDepartureToTimestamp rt (JString t) now\<rparr>))
      else if tail = ''vehicle.id'' then
        Some (charger\<lparr>vehicle_id := trim (String_or_empty rt value)\<rparr>)
      else if tail = ''ctrl.reset_session'' then
        Some (if is_pressed value
              then charger\<lparr>meas_energy_kwh := 0,
                     meas_status := (if ctrl_plugged charger then ''Preparing'' else ''Available'')\<rparr>
              else charger)
      else None)"

text \<open>The first element that satisfies \<open>P\<close> (the one \<open>Array.find\<close> returns), replaced.\<close>

fun update_first :: "('a \<Rightarrow> bool) \<Rightarrow> 'a \<Rightarrow> 'a list \<Rightarrow> 'a list" where
  "update_first P y [] = []"
| "update_first P y (x # xs) = (if P x then y # xs else x # update_first P y xs)"

text \<open>
  \<open>_applyWrite(relId, value)\<close> on an initialised model: whether the write applied, and the
  model after it.
\<close>

definition applyWrite_model ::
  "js_runtime \<Rightarrow> int \<Rightarrow> string \<Rightarrow> jsval \<Rightarrow> plant \<Rightarrow> bool \<times> plant" where
  "applyWrite_model rt now relId value m =
     (if relId = ''grid.limit_kw'' then (True, m\<lparr>grid_limit_kw := clampV rt value 1 5000\<rparr>)
      else if relId = ''grid.base_load_kw'' then
        (True, m\<lparr>grid_base_load_kw := clampV rt value 0 5000\<rparr>)
      else if relId = ''grid.available'' then (True, m\<lparr>grid_available := truthy value\<rparr>)
      else if relId = ''tariff.mode'' then
        (True, m\<lparr>tariff_mode :=
           (if toLowerCase (String_or_empty rt value) = ''manual'' then ''manual'' else ''auto'')\<rparr>)
      else if relId = ''tariff.price_ct_per_kwh'' then
        (True, m\<lparr>tariff_price_ct_per_kwh := clampV rt value (- 500) 500\<rparr>)
      else if relId = ''pv.installed_kwp'' then
        (True, m\<lparr>pv_installed_kwp := clampV rt value 0 5000\<rparr>)
      else if relId = ''pv.weather_factor'' then
        (True, m\<lparr>pv_weather_factor := clampV rt value 0 1\<rparr>)
      else if relId = ''pv.override.enabled'' then
        (True, m\<lparr>pv_override_enabled := truthy value\<rparr>)
      else if relId = ''pv.override.power_kw'' then
        (True, m\<lparr>pv_override_power_kw := clampV rt value 0 100000\<rparr>)
      else if relId = ''storage.capacity_kwh'' then
        (True, m\<lparr>storage_capacity_kwh := clampV rt value 1 50000\<rparr>)
      else if relId = ''storage.max_charge_kw'' then
        (True, m\<lparr>storage_max_charge_kw := clampV rt value 0 50000\<rparr>)
      else if relId = ''storage.max_discharge_kw'' then
        (True, m\<lparr>storage_max_discharge_kw := clampV rt value 0 50000\<rparr>)
      else if relId = ''storage.soc_pct'' then
        (True, m\<lparr>storage_soc_pct := clampV rt value 0 100\<rparr>)
      else if relId = ''storage.ctrl.enabled'' then
        (True, m\<lparr>storage_ctrl_enabled := truthy value\<rparr>)
      else if relId = ''storage.ctrl.power_set_kw'' then
        (True, m\<lparr>storage_ctrl_power_set_kw := normalizePowerKw rt value\<rparr>)
      else if relId = ''heatpump.ctrl.enabled'' then
        (True, m\<lparr>heatpump_ctrl_enabled := truthy value\<rparr>)
      else if relId = ''heatpump.ctrl.power_set_kw'' then
        (True, m\<lparr>heatpump_ctrl_power_set_kw := normalizePowerKw rt value\<rparr>)
      else if relId = ''chp.ctrl.enabled'' then (True, m\<lparr>chp_ctrl_enabled := truthy value\<rparr>)
      else if relId = ''chp.ctrl.power_set_kw'' then
        (True, m\<lparr>chp_ctrl_power_set_kw := normalizePowerKw rt value\<rparr>)
      else if relId = ''generator.ctrl.enabled'' then
        (True, m\<lparr>generator_ctrl_enabled := truthy value\<rparr>)
      else if relId = ''generator.ctrl.power_set_kw'' then
        (True, m\<lparr>generator_ctrl_power_set_kw := normalizePowerKw rt value\<rparr>)
      else
        (case match_evcs relId of
           None \<Rightarrow> (False, m)
         | Some (c, tail) \<Rightarrow>
             (case find (\<lambda>ch. cid ch = c) (evcs_chargers m) of
                None \<Rightarrow> (False, m)
              | Some charger \<Rightarrow>
                  (case applyWrite_charger rt now tail value charger of
                     None \<Rightarrow> (False, m)
                   | Some charger' \<Rightarrow>
                       (True, m\<lparr>evcs_chargers :=
                                 update_first (\<lambda>ch. cid ch = c) charger' (evcs_chargers m)\<rparr>)))))"

text \<open>\<open>_applyWrite\<close> with its guard \<open>if (!this._model) return false\<close>.\<close>

definition applyWrite ::
  "js_runtime \<Rightarrow> int \<Rightarrow> string \<Rightarrow> jsval \<Rightarrow> plant option \<Rightarrow> bool \<times> plant option" where
  "applyWrite rt now relId value model =
     (case model of
        None \<Rightarrow> (False, None)
      | Some m \<Rightarrow> (case applyWrite_model rt now relId value m of (b, m') \<Rightarrow> (b, Some m')))"

subsection \<open>The scenario catalog\<close>

text \<open>
  \<open>_scenarioDefinitions()\<close>: the entries in catalog order, with their \<open>id\<close>, \<open>kind\<close> and
  \<open>duration_s\<close> (\<open>None\<close> where an entry has none). Titles and descriptions are display
  texts and are left out.
\<close>

record scenario_def =
  def_id :: string
  def_kind :: string
  def_duration_s :: "real option"

definition scenarioDefinitions :: "scenario_def list" where
  "scenarioDefinitions =
     [
      \<lparr>def_id = ''suite_all_scenarios_5min'', def_kind = ''suite'', def_duration_s = Some 0\<rparr>,
      \<lparr>def_id = ''suite_stop'', def_kind = ''suite'', def_duration_s = Some 0\<rparr>,
      \<lparr>def_id = ''suite_smoke_all'', def_kind = ''timeline'', def_duration_s = Some 420\<rparr>,
      \<lparr>def_id = ''suite_full_all'', def_kind = ''timeline'', def_duration_s = Some 1800\<rparr>,
      \<lparr>def_id = ''baseline'', def_kind = ''oneshot'', def_duration_s = None\<rparr>,
      \<lparr>def_id = ''lm_6cars_deadline_0615'', def_kind = ''oneshot'', def_duration_s = None\<rparr>,
      \<lparr>def_id = ''lm_20mix_deadline_0615'', def_kind = ''oneshot'', def_duration_s = None\<rparr>,
      \<lparr>def_id = ''lm_50ports_deadline_0615'', def_kind = ''oneshot'', def_duration_s = None\<rparr>,
      \<lparr>def_id = ''lm_priorities_3tiers'', def_kind = ''oneshot'', def_duration_s = None\<rparr>,
      \<lparr>def_id = ''lm_arrival_wave_timeline'', def_kind = ''timeline'', def_duration_s = Some 600\<rparr>,
      \<lparr>def_id = ''lm_departure_wave_timeline'', def_kind = ''timeline'', def_duration_s = Some 600\<rparr>,
      \<lparr>def_id = ''pv_surplus_30cars'', def_kind = ''oneshot'', def_duration_s = None\<rparr>,
      \<lparr>def_id = ''pv_cloud_ramp_timeline'', def_kind = ''timeline'', def_duration_s = Some 600\<rparr>,
      \<lparr>def_id = ''storage_soc0'', def_kind = ''oneshot'', def_duration_s = None\<rparr>,
      \<lparr>def_id = ''storage_soc100'', def_kind = ''oneshot'', def_duration_s = None\<rparr>,
      \<lparr>def_id = ''storage_power_limit_low'', def_kind = ''oneshot'', def_duration_s = None\<rparr>,
      \<lparr>def_id = ''tariff_flat_low_10ct'', def_kind = ''oneshot'', def_duration_s = None\<rparr>,
      \<lparr>def_id = ''tariff_pulse_timeline'', def_kind = ''timeline'', def_duration_s = Some 180\<rparr>,
      \<lparr>def_id = ''tariff_extremes_timeline'', def_kind = ''timeline'', def_duration_s = Some 300\<rparr>,
      \<lparr>def_id = ''grid_limit_drop_timeline'', def_kind = ''timeline'', def_duration_s = Some 240\<rparr>,
      \<lparr>def_id = ''grid_14a_limit_timeline'', def_kind = ''timeline'', def_duration_s = Some 600\<rparr>,
      \<lparr>def_id = ''base_load_spike_timeline'', def_kind = ''timeline'', def_duration_s = Some 300\<rparr>,
      \<lparr>def_id = ''grid_blackout_60s_timeline'', def_kind = ''timeline'', def_duration_s = Some 150\<rparr>,
      \<lparr>def_id = ''dc_rush_10'', def_kind = ''oneshot'', def_duration_s = None\<rparr>,
      \<lparr>def_id = ''dc_taper_single_400'', def_kind = ''oneshot'', def_duration_s = None\<rparr>,
      \<lparr>def_id = ''dc_all_ports_stress'', def_kind = ''oneshot'', def_duration_s = None\<rparr>,
      \<lparr>def_id = ''faults_evcs_faulted_5'', def_kind = ''oneshot'', def_duration_s = None\<rparr>,
      \<lparr>def_id = ''faults_evcs_unavailable_5'', def_kind = ''oneshot'', def_duration_s = None\<rparr>,
      \<lparr>def_id = ''faults_evcs_meter_freeze_3'', def_kind = ''oneshot'', def_duration_s = None\<rparr>,
      \<lparr>def_id = ''faults_clear_all'', def_kind = ''oneshot'', def_duration_s = None\<rparr>,
      \<lparr>def_id = ''fuzz_10min_medium'', def_kind = ''timeline'', def_duration_s = Some 600\<rparr>,
      \<lparr>def_id = ''fuzz_30min_heavy'', def_kind = ''timeline'', def_duration_s = Some 1800\<rparr>,
      \<lparr>def_id = ''ext_heatpump_30kw'', def_kind = ''oneshot'', def_duration_s = None\<rparr>,
      \<lparr>def_id = ''ext_chp_80kw'', def_kind = ''oneshot'', def_duration_s = None\<rparr>,
      \<lparr>def_id = ''ext_generator_200kw'', def_kind = ''oneshot'', def_duration_s = None\<rparr>
     ]"

subsection \<open>The configuration\<close>

text \<open>
  \<open>this._cfg\<close>, as \<open>onReady\<close> normalizes \<open>this.config\<close>. \<open>raw\<close> gives the value of an option
  of \<open>this.config\<close> (\<open>undefined\<close> when it is not set); \<open>a ?? b\<close> is \<open>b\<close> when \<open>a\<close> is \<open>null\<close>
  or \<open>undefined\<close>.
\<close>

record config =
  updateIntervalMs :: real
  randomSeed :: real
  gridLimitKw :: real
  baseLoadKw :: real
  pvInstalledKwp :: real
  pvWeatherFactor :: real
  storageCapacityKwh :: real
  storageMaxChargeKw :: real
  storageMaxDischargeKw :: real
  storageInitialSocPct :: real
  chargersCount :: real
  autoConnectEnabled :: bool
  autoConnectCount :: real
  defaultDepartureTime :: string
  defaultTargetSocPct :: real
  scenarioDurationSec :: real
  scenarioResetPauseSec :: real
  autoResetToBaseline :: bool
  unitsAutoDetect :: bool

definition nullish_or :: "jsval \<Rightarrow> jsval \<Rightarrow> jsval" where
  "nullish_or a b = (if a = JUndefined \<or> a = JNull then b else a)"

definition onReady_config :: "js_runtime \<Rightarrow> (string \<Rightarrow> jsval) \<Rightarrow> config" where
  "onReady_config rt raw =
     \<lparr> updateIntervalMs =
         clampV rt (nullish_or (raw ''updateIntervalMs'') (JNumber (Fin 1000))) 200 60000,
       randomSeed = clampV rt (nullish_or (raw ''randomSeed'') (JNumber (Fin 1337))) 0 999999,
       gridLimitKw = clampV rt (nullish_or (raw ''gridLimitKw'') (JNumber (Fin 40))) 1 2000,
       baseLoadKw = clampV rt (nullish_or (raw ''baseLoadKw'') (JNumber (Fin 8))) 0 500,
       pvInstalledKwp = clampV rt (nullish_or (raw ''pvInstalledKwp'') (JNumber (Fin 200))) 0 2000,
       pvWeatherFactor = clampV rt (nullish_or (raw ''pvWeatherFactor'') (JNumber (Fin 0.85))) 0 1,
       storageCapacityKwh =
         clampV rt (nullish_or (raw ''storageCapacityKwh'') (JNumber (Fin 200))) 1 5000,
       storageMaxChargeKw =
         clampV rt (nullish_or (raw ''storageMaxChargeKw'') (JNumber (Fin 200))) 0 5000,
       storageMaxDischargeKw =
         clampV rt (nullish_or (raw ''storageMaxDischargeKw'') (JNumber (Fin 200))) 0 5000,
       storageInitialSocPct =
         clampV rt (nullish_or (raw ''storageInitialSocPct'') (JNumber (Fin 55))) 0 100,
       chargersCount = clampV rt (nullish_or (raw ''chargersCount'') (JNumber (Fin 50))) 1 200,
       autoConnectEnabled = truthy (raw ''autoConnectEnabled''),
       autoConnectCount = clampV rt (nullish_or (raw ''autoConnectCount'') (JNumber (Fin 0))) 0 200,
       defaultDepartureTime =
         ToString rt (nullish_or (raw ''defaultDepartureTime'') (JString ''06:15'')),
       defaultTargetSocPct =
         clampV rt (nullish_or (raw ''defaultTargetSocPct'') (JNumber (Fin 100))) 0 100,
       scenarioDurationSec =
         clampV rt (nullish_or (raw ''scenarioDurationSec'') (JNumber (Fin 300))) 30 86400,
       scenarioResetPauseSec =
         clampV rt (nullish_or (raw ''scenarioResetPauseSec'') (JNumber (Fin 15))) 0 600,
       autoResetToBaseline =
         (if raw ''autoResetToBaseline'' = JUndefined then True
          else truthy (raw ''autoResetToBaseline'')),
       unitsAutoDetect =
         (if raw ''unitsAutoDetect'' = JUndefined then True else truthy (raw ''unitsAutoDetect'')) \<rparr>"

subsection \<open>Scenario and suite state\<close>

text \<open>
  \<open>this._scenario\<close>, \<open>this._suite\<close> and \<open>this._report\<close>. Times are milliseconds, 0 for
  "not set". \<open>data\<close> is the scenario's untyped working set, an object with named
  properties. \<open>last_applied\<close> and the JSON texts of the reports are written for display
  and never read; they are left out, and a scenario summary keeps the id and the reason.
\<close>

record scenario =
  selected :: string
  active :: string
  running :: bool
  started_ms :: real
  duration_s :: real
  ends_ms :: real
  phase :: string
  status :: string
  data :: "string \<rightharpoonup> jsval"
  justFinished :: bool
  justFinishedId :: string
  justFinishedReason :: string
  reset_pending :: bool
  reset_at_ms :: real

record summary =
  summary_id :: string
  summary_reason :: string

record suite =
  suite_running :: bool
  suiteId :: string
  queue :: "string list"
  suite_index :: int
  currentId :: string
  stage :: string
  suite_started_ms :: real
  pause_end_ms :: real
  suite_status :: string
  results :: "summary list"
  last_error :: string

record report =
  report_scenarioId :: string
  report_started_ms :: real
  report_writes :: "string \<rightharpoonup> nat"

text \<open>The adapter object: configuration, plant model, generator and the three records.\<close>

record adapter =
  cfg :: "config option"
  model :: "plant option"
  rng :: LcgRandom
  lastTickMs :: "real option"
  scenario :: scenario
  suite :: suite
  report :: report

text \<open>
  What a scenario does to the plant is a parameter of the engine: \<open>scenario_setup\<close> is the switch
  over the scenario id in \<open>_applyScenario\<close> with the setup procedures it calls (lines
  951-1073 and 1399-2167); they change the plant model and the generator and may assign
  the scenario's \<open>data\<close>, nothing else. \<open>staged_timeline\<close> is the body of the timeline cases that
  plug and unplug vehicles, inject random events or run a stage machine (arrival and
  departure wave, fuzz, smoke and full suite): plant, generator and \<open>data\<close> after the call,
  and the status text. The timelines that set a grid limit, a base load, a tariff, the grid
  availability or the PV override are modelled in full below.

  \<open>normalizeScenarioId\<close> is the method \<open>this._normalizeScenarioId\<close> as the adapter object has
  it: \<open>None\<close> when the object has no such property. \<open>main.js\<close> calls the method (lines 736,
  782, 796, 832 and 924) and defines it nowhere, so for the class of \<open>main.js\<close> the field is
  \<open>None\<close>, and a call of it raises a \<open>TypeError\<close>.
\<close>

record scenario_code =
  scenario_setup :: "string \<Rightarrow> config \<Rightarrow> plant \<times> LcgRandom
              \<Rightarrow> plant \<times> LcgRandom \<times> (string \<rightharpoonup> jsval)"
  staged_timeline :: "string \<Rightarrow> real \<Rightarrow> plant \<times> LcgRandom \<times> (string \<rightharpoonup> jsval)
              \<Rightarrow> (plant \<times> LcgRandom \<times> (string \<rightharpoonup> jsval)) \<times> string"
  normalizeScenarioId :: "(string \<Rightarrow> string) option"

text \<open>
  The outcome of a call of an \<open>async\<close> method of the adapter: it returned, or it raised an
  error (the promise is rejected); in both cases with the adapter as the call leaves it.
  \<open>and_then\<close> is \<open>await\<close> followed by the rest of the calling method: an error raised by
  the awaited call ends the caller as well.
\<close>

datatype error = TypeError

datatype outcome = Returned adapter | Thrown error adapter

primrec state_of :: "outcome \<Rightarrow> adapter" where
  "state_of (Returned a) = a"
| "state_of (Thrown e a) = a"

primrec and_then :: "outcome \<Rightarrow> (adapter \<Rightarrow> outcome) \<Rightarrow> outcome" where
  "and_then (Returned a) f = f a"
| "and_then (Thrown e a) f = Thrown e a"

subsection \<open>\<open>_applyScenario\<close>, \<open>_stopScenario\<close> and the report\<close>

definition reportStart :: "string \<Rightarrow> real \<Rightarrow> report" where
  "reportStart scenarioId nowMs =
     \<lparr> report_scenarioId = scenarioId, report_started_ms = nowMs,
       report_writes = map_of (map (\<lambda>k. (k, 0))
         [''total'', ''evcs_limit'', ''evcs_enable'', ''evcs_plug'', ''storage_power'',
          ''storage_enable'', ''heatpump'', ''chp'', ''generator'', ''grid_limit'', ''tariff'',
          ''pv_override'', ''other'']) \<rparr>"

definition reportReset :: report where
  "reportReset = \<lparr> report_scenarioId = [], report_started_ms = 0, report_writes = Map.empty \<rparr>"

text \<open>
  \<open>_applyScenario(scenarioId, { start })\<close>; \<open>clock\<close> is its \<open>Date.now()\<close>. With the model
  and the configuration present, the first statement is
  \<open>const id = this._normalizeScenarioId(scenarioId)\<close> (line 924): it raises the \<open>TypeError\<close>
  when the object has no such method, before anything is assigned. The phase \<open>applying\<close>
  is set and overwritten within the call.
\<close>

definition applyScenario ::
  "js_runtime \<Rightarrow> scenario_code \<Rightarrow> real \<Rightarrow> string \<Rightarrow> bool \<Rightarrow> adapter \<Rightarrow> outcome" where
  "applyScenario rt code clock scenarioId start a =
     (case (model a, cfg a) of
        (Some m, Some c) \<Rightarrow>
          (case normalizeScenarioId code of
             None \<Rightarrow> Thrown TypeError a
           | Some normalizeId \<Rightarrow>
               (let i = normalizeId scenarioId;
                    nowMs = clock
                in case scenario_setup code i c (m, rng a) of (m', g', d) \<Rightarrow>
                     let sc = (scenario a)\<lparr>selected := i, data := d, justFinished := False,
                                justFinishedId := [], justFinishedReason := [],
                                reset_pending := False, reset_at_ms := 0, active := i\<rparr>;
                         doStart = (start \<and> i \<noteq> ''baseline'')
                     in if doStart then
                          (let dur = clamp (scenarioDurationSec c) 30 86400
                           in Returned (a\<lparr>model := Some m', rng := g',
                                scenario := sc\<lparr>running := True, started_ms := nowMs,
                                  duration_s := dur, ends_ms := nowMs + dur * 1000,
                                  phase := ''running'',
                                  status := ''running '' @ i @ '' (''
                                              @ NumberToString rt (Fin dur) @ ''s)''\<rparr>,
                                report := reportStart i nowMs\<rparr>))
                        else
                          Returned (a\<lparr>model := Some m', rng := g',
                            scenario := sc\<lparr>running := False, started_ms := 0, duration_s := 0,
                              ends_ms := 0, phase := ''applied'', status := ''applied '' @ i\<rparr>,
                            report := reportReset\<rparr>)))
      | _ \<Rightarrow> Returned (a\<lparr>scenario := (scenario a)\<lparr>status := ''model not ready''\<rparr>\<rparr>))"

definition stopScenario :: "string \<Rightarrow> adapter \<Rightarrow> adapter" where
  "stopScenario reason a =
     a\<lparr>scenario := (scenario a)\<lparr>running := False, started_ms := 0, duration_s := 0,
          ends_ms := 0, justFinished := False, justFinishedId := [], justFinishedReason := [],
          reset_pending := False, reset_at_ms := 0, phase := ''stopped'',
          status := ''stopped ('' @ reason @ '')''\<rparr>,
       report := reportReset\<rparr>"

subsection \<open>The timeline\<close>

text \<open>Reading a property of \<open>data\<close>.\<close>

definition data_get :: "(string \<rightharpoonup> jsval) \<Rightarrow> string \<Rightarrow> jsval" where
  "data_get d k = (case d k of None \<Rightarrow> JUndefined | Some v \<Rightarrow> v)"

text \<open>
  The cases of the \<open>switch (id)\<close> of \<open>_runScenarioTimeline\<close>, one definition for each:
  plant, generator and \<open>data\<close> after the case, the status and the phase (\<open>running\<close>
  unless the case sets \<open>done\<close>). \<open>st0\<close> is the default status \<open>running <id>\<close>.
\<close>

type_synonym timeline_state = "plant \<times> LcgRandom \<times> (string \<rightharpoonup> jsval)"

definition timeline_grid_limit_drop ::
  "string \<Rightarrow> real \<Rightarrow> timeline_state \<Rightarrow> timeline_state \<times> string \<times> string" where
  "timeline_grid_limit_drop st0 elapsed s =
     (case s of (m, g, d) \<Rightarrow>
        if elapsed < 60 then
          ((m\<lparr>grid_limit_kw := 80\<rparr>, g, d), ''grid limit = 80 kW (normal)'', ''running'')
        else if elapsed < 180 then
          ((m\<lparr>grid_limit_kw := 25\<rparr>, g, d), ''grid limit = 25 kW (drop active)'', ''running'')
        else if elapsed < 240 then
          ((m\<lparr>grid_limit_kw := 80\<rparr>, g, d), ''grid limit restored = 80 kW'', ''running'')
        else (s, st0, ''done''))"

definition timeline_grid_14a_limit ::
  "string \<Rightarrow> real \<Rightarrow> timeline_state \<Rightarrow> timeline_state \<times> string \<times> string" where
  "timeline_grid_14a_limit st0 elapsed s =
     (case s of (m, g, d) \<Rightarrow>
        if elapsed < 60 then
          ((m\<lparr>grid_limit_kw := 40\<rparr>, g, d), ''curtailment inactive (limit 40 kW)'', ''running'')
        else if elapsed < 300 then
          ((m\<lparr>grid_limit_kw := 10\<rparr>, g, d), ''curtailment active (limit 10 kW)'', ''running'')
        else if elapsed < 600 then
          ((m\<lparr>grid_limit_kw := 40\<rparr>, g, d), ''curtailment ended (limit 40 kW)'', ''running'')
        else (s, st0, ''done''))"

definition timeline_base_load_spike ::
  "string \<Rightarrow> real \<Rightarrow> timeline_state \<Rightarrow> timeline_state \<times> string \<times> string" where
  "timeline_base_load_spike st0 elapsed s =
     (case s of (m, g, d) \<Rightarrow>
        if elapsed < 60 then
          ((m\<lparr>grid_base_load_kw := 8\<rparr>, g, d), ''base load = 8 kW'', ''running'')
        else if elapsed < 120 then
          ((m\<lparr>grid_base_load_kw := 25\<rparr>, g, d), ''base load spike = 25 kW'', ''running'')
        else if elapsed < 180 then
          ((m\<lparr>grid_base_load_kw := 60\<rparr>, g, d), ''base load spike = 60 kW'', ''running'')
        else if elapsed < 240 then
          ((m\<lparr>grid_base_load_kw := 15\<rparr>, g, d), ''base load = 15 kW'', ''running'')
        else if elapsed < 300 then
          ((m\<lparr>grid_base_load_kw := 8\<rparr>, g, d), ''base load back to normal'', ''running'')
        else (s, st0, ''done''))"

definition timeline_tariff_pulse ::
  "string \<Rightarrow> real \<Rightarrow> timeline_state \<Rightarrow> timeline_state \<times> string \<times> string" where
  "timeline_tariff_pulse st0 elapsed s =
     (case s of (m0, g, d) \<Rightarrow>
        let m = m0\<lparr>tariff_mode := ''manual''\<rparr> in
        if elapsed < 60 then
          ((m\<lparr>tariff_price_ct_per_kwh := 10\<rparr>, g, d), ''tariff = 10 ct/kWh (low)'', ''running'')
        else if elapsed < 120 then
          ((m\<lparr>tariff_price_ct_per_kwh := 120\<rparr>, g, d), ''tariff = 120 ct/kWh (high)'',
           ''running'')
        else if elapsed < 180 then
          ((m\<lparr>tariff_price_ct_per_kwh := 10\<rparr>, g, d), ''tariff = 10 ct/kWh (low again)'',
           ''running'')
        else ((m, g, d), st0, ''done''))"

definition timeline_tariff_extremes ::
  "string \<Rightarrow> real \<Rightarrow> timeline_state \<Rightarrow> timeline_state \<times> string \<times> string" where
  "timeline_tariff_extremes st0 elapsed s =
     (case s of (m0, g, d) \<Rightarrow>
        let m = m0\<lparr>tariff_mode := ''manual''\<rparr> in
        if elapsed < 80 then
          ((m\<lparr>tariff_price_ct_per_kwh := - 20\<rparr>, g, d), ''tariff = -20 ct/kWh (negative)'',
           ''running'')
        else if elapsed < 160 then
          ((m\<lparr>tariff_price_ct_per_kwh := 200\<rparr>, g, d), ''tariff = 200 ct/kWh (very high)'',
           ''running'')
        else if elapsed < 240 then
          ((m\<lparr>tariff_price_ct_per_kwh := 30\<rparr>, g, d), ''tariff = 30 ct/kWh (normal)'',
           ''running'')
        else ((m, g, d), st0, ''done''))"

definition timeline_pv_cloud_ramp ::
  "js_runtime \<Rightarrow> real \<Rightarrow> timeline_state \<Rightarrow> timeline_state \<times> string \<times> string" where
  "timeline_pv_cloud_ramp rt elapsed s =
     (case s of (m, g, d) \<Rightarrow>
        let maxPv = clampV rt (nullish_or (data_get d ''max_pv_kw'') (JNumber (Fin 550))) 0 100000;
            wave = 0.5 + 0.5 * sin ((2 * pi * elapsed) / 120);
            ripple = 0.85 + 0.15 * sin ((2 * pi * elapsed) / 37);
            dip = (if sin ((2 * pi * elapsed) / 90) > 0.92 then 0.25 else 1.0);
            pv = clamp (maxPv * wave * ripple * dip) 0 100000
        in ((m\<lparr>pv_override_enabled := True, pv_override_power_kw := pv\<rparr>, g, d),
            ''PV clouds: '' @ toFixed rt 0 pv @ '' kW (override)'',
            (if elapsed \<ge> 600 then ''done'' else ''running'')))"

definition timeline_wave ::
  "scenario_code \<Rightarrow> string \<Rightarrow> real \<Rightarrow> timeline_state \<Rightarrow> timeline_state \<times> string \<times> string" where
  "timeline_wave code i elapsed s =
     (case staged_timeline code i elapsed s of (s', st) \<Rightarrow>
        (s', st, (if elapsed \<ge> 600 then ''done'' else ''running'')))"

definition timeline_grid_blackout ::
  "string \<Rightarrow> real \<Rightarrow> timeline_state \<Rightarrow> timeline_state \<times> string \<times> string" where
  "timeline_grid_blackout st0 elapsed s =
     (case s of (m, g, d) \<Rightarrow>
        if elapsed < 30 then ((m\<lparr>grid_available := True\<rparr>, g, d), ''grid up (pre)'', ''running'')
        else if elapsed < 90 then
          ((m\<lparr>grid_available := False\<rparr>, g, d), ''grid blackout (active)'', ''running'')
        else if elapsed < 150 then
          ((m\<lparr>grid_available := True\<rparr>, g, d), ''grid recovered'', ''running'')
        else (s, st0, ''done''))"

definition timeline_fuzz ::
  "js_runtime \<Rightarrow> scenario_code \<Rightarrow> string \<Rightarrow> real \<Rightarrow> timeline_state
     \<Rightarrow> timeline_state \<times> string \<times> string" where
  "timeline_fuzz rt code i elapsed s =
     (case s of (m, g, d) \<Rightarrow>
        let duration = clampV rt (nullish_or (data_get d ''duration_s'')
                         (JNumber (Fin (if i = ''fuzz_30min_heavy'' then 1800 else 600))))
                         10 100000
        in case staged_timeline code i elapsed s of (s', st) \<Rightarrow>
             (s', st, (if elapsed \<ge> duration then ''done'' else ''running'')))"

definition timeline_stages ::
  "scenario_code \<Rightarrow> string \<Rightarrow> real \<Rightarrow> string \<Rightarrow> real \<Rightarrow> timeline_state
     \<Rightarrow> timeline_state \<times> string \<times> string" where
  "timeline_stages code i end_s st0 elapsed s =
     (if elapsed < end_s
      then (case staged_timeline code i elapsed s of (s', st) \<Rightarrow> (s', st, ''running''))
      else (s, st0, ''done''))"

text \<open>The \<open>switch (id)\<close> itself.\<close>

definition timeline_case ::
  "js_runtime \<Rightarrow> scenario_code \<Rightarrow> string \<Rightarrow> real \<Rightarrow> timeline_state
     \<Rightarrow> timeline_state \<times> string \<times> string" where
  "timeline_case rt code i elapsed s =
     (let st0 = ''running '' @ i in
      if i = ''grid_limit_drop_timeline'' then timeline_grid_limit_drop st0 elapsed s
      else if i = ''grid_14a_limit_timeline'' then timeline_grid_14a_limit st0 elapsed s
      else if i = ''base_load_spike_timeline'' then timeline_base_load_spike st0 elapsed s
      else if i = ''tariff_pulse_timeline'' then timeline_tariff_pulse st0 elapsed s
      else if i = ''tariff_extremes_timeline'' then timeline_tariff_extremes st0 elapsed s
      else if i = ''pv_cloud_ramp_timeline'' then timeline_pv_cloud_ramp rt elapsed s
      else if i = ''lm_arrival_wave_timeline'' then timeline_wave code i elapsed s
      else if i = ''lm_departure_wave_timeline'' then timeline_wave code i elapsed s
      else if i = ''grid_blackout_60s_timeline'' then timeline_grid_blackout st0 elapsed s
      else if i = ''fuzz_10min_medium'' \<or> i = ''fuzz_30min_heavy'' then
        timeline_fuzz rt code i elapsed s
      else if i = ''suite_smoke_all'' then timeline_stages code i 420 st0 elapsed s
      else if i = ''suite_full_all'' then timeline_stages code i 1800 st0 elapsed s
      else (s, st0, ''running''))"

text \<open>
  \<open>_runScenarioTimeline(nowMs, ...)\<close>: the two guards, the case of the scenario, the global
  duration (hold a timeline that is done early, end the scenario when the duration is
  reached).
\<close>

definition runScenarioTimeline ::
  "js_runtime \<Rightarrow> scenario_code \<Rightarrow> real \<Rightarrow> adapter \<Rightarrow> adapter" where
  "runScenarioTimeline rt code nowMs a =
     (case model a of
        None \<Rightarrow> a
      | Some m \<Rightarrow>
          if \<not> running (scenario a) then a
          else if started_ms (scenario a) = 0 then a
          else
            (let sc = scenario a;
                 elapsed = (nowMs - started_ms sc) / 1000;
                 i = active sc
             in case timeline_case rt code i elapsed (m, rng a, data sc) of
                  ((m', g', d'), st, ph) \<Rightarrow>
                    let duration = duration_s sc;
                        hold = (ph = ''done'' \<and> duration > 0 \<and> elapsed < duration);
                        ph = (if hold then ''running'' else ph);
                        st = (if hold then st @ '' (stabilisiert)'' else st);
                        sc = sc\<lparr>data := d', status := st, phase := ph\<rparr>;
                        sc = (if duration > 0 \<and> elapsed \<ge> duration
                              then sc\<lparr>running := False, started_ms := 0, ends_ms := 0,
                                     phase := ''done'', status := ''done '' @ i,
                                     justFinished := True, justFinishedId := i,
                                     justFinishedReason := ''timeout''\<rparr>
                              else sc)
                    in a\<lparr>model := Some m', rng := g', scenario := sc\<rparr>))"

subsection \<open>Finished scenarios, pending resets and the suite runner\<close>

definition pauseMs :: "adapter \<Rightarrow> real" where
  "pauseMs a = (case cfg a of None \<Rightarrow> 0 | Some c \<Rightarrow> scenarioResetPauseSec c) * 1000"

definition count_text :: "js_runtime \<Rightarrow> int \<Rightarrow> nat \<Rightarrow> string" where
  "count_text rt k n =
     ''('' @ NumberToString rt (Fin (real_of_int k)) @ ''/'' @ NumberToString rt (Fin (real n)) @ '')''"

text \<open>
  \<open>_handleScenarioFinished(nowMs)\<close>; \<open>clock\<close> is \<open>Date.now()\<close> in \<open>_applyScenario\<close>. In the
  branch of the suite, the stage is set to \<open>pause\<close> after the awaited \<open>_applyScenario\<close>;
  the finish flags are cleared at the end of the method.
\<close>

definition handleScenarioFinished ::
  "js_runtime \<Rightarrow> scenario_code \<Rightarrow> real \<Rightarrow> real \<Rightarrow> adapter \<Rightarrow> outcome" where
  "handleScenarioFinished rt code nowMs clock a =
     (if \<not> justFinished (scenario a) then Returned a
      else
        (let finishedId = (if justFinishedId (scenario a) \<noteq> [] then justFinishedId (scenario a)
                           else active (scenario a));
             reason = (if justFinishedReason (scenario a) \<noteq> [] then justFinishedReason (scenario a)
                       else ''timeout'');
             s = \<lparr> summary_id = finishedId, summary_reason = reason \<rparr>
         in and_then
              (if suite_running (suite a) \<and> stage (suite a) = ''scenario''
                     \<and> currentId (suite a) = finishedId
               then
                 and_then
                   (applyScenario rt code clock ''baseline'' False
                      (a\<lparr>suite := (suite a)\<lparr>results := results (suite a) @ [s]\<rparr>\<rparr>))
                   (\<lambda>a. Returned (a\<lparr>suite := (suite a)\<lparr>stage := ''pause'', currentId := [],
                            pause_end_ms := nowMs + pauseMs a,
                            suite_status := ''pause '' @ count_text rt (suite_index (suite a) + 1)
                                              (length (queue (suite a)))\<rparr>\<rparr>))
               else
                 Returned
                   (case cfg a of
                      Some c \<Rightarrow>
                        if autoResetToBaseline c
                        then a\<lparr>scenario := (scenario a)\<lparr>reset_pending := True,
                                 reset_at_ms := nowMs + pauseMs a,
                                 status := ''done '' @ finishedId @ '' (auto reset in ''
                                   @ NumberToString rt (Fin (scenarioResetPauseSec c)) @ ''s)''\<rparr>\<rparr>
                        else a
                    | None \<Rightarrow> a))
              (\<lambda>a. Returned (a\<lparr>scenario := (scenario a)\<lparr>justFinished := False,
                        justFinishedId := [], justFinishedReason := []\<rparr>,
                      report := (report a)\<lparr>report_scenarioId := []\<rparr>\<rparr>))))"

text \<open>\<open>_processPendingResets(nowMs)\<close>.\<close>

definition processPendingResets ::
  "js_runtime \<Rightarrow> scenario_code \<Rightarrow> real \<Rightarrow> real \<Rightarrow> adapter \<Rightarrow> outcome" where
  "processPendingResets rt code nowMs clock a =
     (if suite_running (suite a) then Returned a
      else if \<not> reset_pending (scenario a) then Returned a
      else if nowMs < reset_at_ms (scenario a) then Returned a
      else applyScenario rt code clock ''baseline'' False
             (a\<lparr>scenario := (scenario a)\<lparr>reset_pending := False, reset_at_ms := 0\<rparr>\<rparr>))"

text \<open>\<open>_stopSuite(reason)\<close>.\<close>

definition stopSuite :: "js_runtime \<Rightarrow> scenario_code \<Rightarrow> real \<Rightarrow> string \<Rightarrow> adapter \<Rightarrow> outcome" where
  "stopSuite rt code clock reason a =
     (if \<not> suite_running (suite a) then Returned a
      else applyScenario rt code clock ''baseline'' False
             (a\<lparr>suite := (suite a)\<lparr>suite_running := False, stage := ''stopped'',
                  suite_status := ''stopped ('' @ reason @ '')''\<rparr>\<rparr>))"

text \<open>
  The queue that \<open>_startSuiteAll\<close> builds from the catalog:
  \<open>defs.filter(d => d && d.id && d.id !== 'baseline' && d.kind !== 'suite' &&
  !String(d.id).startsWith('suite_')).map(d => d.id)\<close>.
\<close>

definition startsWith :: "string \<Rightarrow> string \<Rightarrow> bool" where
  "startsWith s p \<longleftrightarrow> take (length p) s = p"

definition suite_queue :: "scenario_def list \<Rightarrow> string list" where
  "suite_queue defs =
     map def_id
       (filter (\<lambda>d. def_id d \<noteq> [] \<and> def_id d \<noteq> ''baseline'' \<and> def_kind d \<noteq> ''suite''
                     \<and> \<not> startsWith (def_id d) ''suite_'') defs)"

text \<open>
  \<open>_startSuiteAll()\<close>; \<open>clock\<close> is \<open>Date.now()\<close>. The fields of the suite are assigned
  before the awaited \<open>_applyScenario('baseline')\<close> at the end.
\<close>

definition startSuiteAll :: "js_runtime \<Rightarrow> scenario_code \<Rightarrow> real \<Rightarrow> adapter \<Rightarrow> outcome" where
  "startSuiteAll rt code clock a =
     (if model a = None \<or> cfg a = None then Returned a
      else
        and_then
          (if suite_running (suite a) then stopSuite rt code clock ''restart'' a else Returned a)
          (\<lambda>a.
             let a = a\<lparr>scenario := (scenario a)\<lparr>running := False, started_ms := 0,
                        duration_s := 0, ends_ms := 0, reset_pending := False, reset_at_ms := 0,
                        justFinished := False, justFinishedId := [], justFinishedReason := []\<rparr>\<rparr>;
                 q = suite_queue scenarioDefinitions;
                 startedMs = clock;
                 a = a\<lparr>suite := (suite a)\<lparr>suite_running := True,
                          suiteId := ''suite_all_scenarios_5min'', queue := q, suite_index := - 1,
                          currentId := [], stage := ''pause'', suite_started_ms := startedMs,
                          pause_end_ms := startedMs + pauseMs a,
                          suite_status := ''started '' @ count_text rt 0 (length q),
                          results := [], last_error := []\<rparr>\<rparr>
             in applyScenario rt code clock ''baseline'' False a))"

text \<open>
  \<open>_suiteTick(nowMs)\<close>. In stage \<open>pause\<close>, once the pause has ended, the fields of the suite
  are assigned before the awaited \<open>_applyScenario\<close>.
\<close>

definition suiteTick ::
  "js_runtime \<Rightarrow> scenario_code \<Rightarrow> real \<Rightarrow> real \<Rightarrow> adapter \<Rightarrow> outcome" where
  "suiteTick rt code nowMs clock a =
     (if \<not> suite_running (suite a) then Returned a
      else if stage (suite a) = ''pause'' then
        (if nowMs < pause_end_ms (suite a) then Returned a
         else
           (let nextIndex = suite_index (suite a) + 1;
                total = length (queue (suite a))
            in if nextIndex \<ge> int total then
                 applyScenario rt code clock ''baseline'' False
                   (a\<lparr>suite := (suite a)\<lparr>suite_running := False, stage := ''done'',
                        suite_status := ''done ('' @ NumberToString rt (Fin (real total)) @ '')''\<rparr>\<rparr>)
               else
                 (let i = queue (suite a) ! nat nextIndex
                  in applyScenario rt code clock i True
                       (a\<lparr>suite := (suite a)\<lparr>suite_index := nextIndex, currentId := i,
                            stage := ''scenario'',
                            suite_status := ''running '' @ i @ '' ''
                              @ count_text rt (nextIndex + 1) total\<rparr>\<rparr>))))
      else Returned a)"

subsection \<open>The tick\<close>

text \<open>
  \<open>_tick()\<close> without the publishing at its end: pending reset, suite runner, timeline,
  finished scenario, then the physics; an error raised by one of the awaited calls ends
  the tick there. \<open>nowMs\<close> is the tick's \<open>Date.now()\<close>, \<open>clock\<close> the later reading inside
  \<open>_applyScenario\<close>, \<open>hour\<close> the local time of day.
\<close>

definition engine_tick ::
  "js_runtime \<Rightarrow> scenario_code \<Rightarrow> real \<Rightarrow> real \<Rightarrow> adapter \<Rightarrow> outcome" where
  "engine_tick rt code nowMs clock a =
     and_then (processPendingResets rt code nowMs clock a) (\<lambda>a.
     and_then (suiteTick rt code nowMs clock a) (\<lambda>a.
     handleScenarioFinished rt code nowMs clock (runScenarioTimeline rt code nowMs a)))"


definition tick ::
  "js_runtime \<Rightarrow> scenario_code \<Rightarrow> real \<Rightarrow> real \<Rightarrow> real \<Rightarrow> adapter \<Rightarrow> outcome" where
  "tick rt code nowMs clock hour a =
     (case model a of
        None \<Rightarrow> Returned a
      | Some m0 \<Rightarrow>
          (let lastMs = (case lastTickMs a of None \<Rightarrow> nowMs | Some l \<Rightarrow> l)
           in and_then (engine_tick rt code nowMs clock (a\<lparr>lastTickMs := Some nowMs\<rparr>)) (\<lambda>a.
                case model a of
                  None \<Rightarrow> Returned a
                | Some m \<Rightarrow>
                    (case tick_physics hour (dtH nowMs lastMs) (m, rng a) of
                       (m', g') \<Rightarrow> Returned (a\<lparr>model := Some m', rng := g'\<rparr>)))))"


section \<open>Concrete inputs\<close>

text \<open>
  The plant of a fresh instance with the default configuration (\<open>_initModel\<close> with no
  persisted state), over a given list of charge points, and the charge point \<open>c01\<close> as
  the scenario \<open>lm_6cars_deadline_0615\<close> plugs it (AC, 11 kW, SoC 20 %, 60 kWh, target 100 %).
\<close>

definition default_plant :: "charger list \<Rightarrow> plant" where
  "default_plant chs =
     \<lparr> grid_available = True, grid_limit_kw = 40, grid_base_load_kw = 8, grid_power_kw = 0,
       grid_over_limit = False,
       tariff_mode = ''auto'', tariff_price_ct_per_kwh = 30,
       pv_installed_kwp = 200, pv_weather_factor = 0.85, pv_power_kw = 0,
       pv_override_enabled = False, pv_override_power_kw = 0,
       storage_capacity_kwh = 200, storage_max_charge_kw = 200, storage_max_discharge_kw = 200,
       storage_soc_pct = 55, storage_power_kw = 0, storage_ctrl_enabled = True,
       storage_ctrl_power_set_kw = 0,
       heatpump_power_kw = 0, heatpump_ctrl_enabled = False, heatpump_ctrl_power_set_kw = 0,
       chp_power_kw = 0, chp_ctrl_enabled = False, chp_ctrl_power_set_kw = 0,
       generator_power_kw = 0, generator_ctrl_enabled = False, generator_ctrl_power_set_kw = 0,
       evcs_chargers = chs \<rparr>"

definition lm6_c01 :: charger where
  "lm6_c01 =
     \<lparr> cid = ''c01'', ctype = ''ac'', max_kw = 11,
       sim_faulted = False, sim_unavailable = False, sim_meter_freeze = False,
       ctrl_enabled = True, ctrl_limit_kw = 11, ctrl_plugged = True, ctrl_priority = 10,
       vehicle_id = ''VEH-01'', vehicle_soc_pct = 20, vehicle_capacity_kwh = 60,
       vehicle_max_charge_kw = 11, vehicle_target_soc_pct = 100,
       vehicle_departure_time = ''06:15'', vehicle_departure_ts = None,
       meas_status = ''Preparing'', meas_power_kw = 0, meas_energy_kwh = 0 \<rparr>"

text \<open>
  A runtime for concrete evaluation: \<open>Number\<close> reads strings of decimal digits, no string
  is a valid date, local time is UTC+1.
\<close>

definition test_runtime :: js_runtime where
  "test_runtime =
     \<lparr> StringToNumber = (\<lambda>s. if s \<noteq> [] \<and> list_all is_digit s then Fin (real (digits_val s)) else NaN),
       NumberToString = (\<lambda>n. []),
       toFixed = (\<lambda>d x. []),
       DateParse = (\<lambda>s. None),
       tzOffsetMs = 3600000 \<rparr>"


text \<open>
  The adapter as its constructor leaves it, and the adapter after \<open>onReady\<close> with the
  configuration \<open>raw\<close>, over a plant with the one charge point above
  (\<open>_initScenarioStates\<close> raises on its first statement, line 736, and catches the error,
  so the scenario and the suite stay as the constructor left them). \<open>test_code\<close> is the
  scenario code of \<open>main.js\<close> as far as the scenario id does not matter: no method
  \<open>_normalizeScenarioId\<close>; setups and staged timelines that leave the plant alone.
\<close>

definition initial_adapter :: adapter where
  "initial_adapter =
     \<lparr> cfg = None, model = None, rng = new_LcgRandom 1337, lastTickMs = None,
       scenario = \<lparr> selected = ''baseline'', active = ''baseline'', running = False,
         started_ms = 0, duration_s = 0, ends_ms = 0, phase = ''idle'', status = ''idle'',
         data = Map.empty, justFinished = False, justFinishedId = [], justFinishedReason = [],
         reset_pending = False, reset_at_ms = 0 \<rparr>,
       suite = \<lparr> suite_running = False, suiteId = [], queue = [], suite_index = - 1,
         currentId = [], stage = ''idle'', suite_started_ms = 0, pause_end_ms = 0,
         suite_status = ''idle'', results = [], last_error = [] \<rparr>,
       report = \<lparr> report_scenarioId = [], report_started_ms = 0, report_writes = Map.empty \<rparr> \<rparr>"

definition ready_adapter :: "(string \<Rightarrow> jsval) \<Rightarrow> adapter" where
  "ready_adapter raw =
     (let c = onReady_config test_runtime raw
      in initial_adapter\<lparr>cfg := Some c, rng := new_LcgRandom (randomSeed c),
           model := Some (default_plant [lm6_c01])\<rparr>)"

definition test_code :: scenario_code where
  "test_code =
     \<lparr> scenario_setup = (\<lambda>i c mg. case mg of (m, g) \<Rightarrow> (m, g, Map.empty)),
       staged_timeline = (\<lambda>i elapsed s. (s, ''running '' @ i)),
       normalizeScenarioId = None \<rparr>"

text \<open>The configuration with a scenario duration of two hours and defaults otherwise.\<close>

definition config_2h :: "string \<Rightarrow> jsval" where
  "config_2h k = (if k = ''scenarioDurationSec'' then JNumber (Fin 7200) else JUndefined)"

section \<open>Verification\<close>

subsection \<open>The random generator\<close>

lemma rng_next_fst:
  "fst (rng_next g) = real (unat (state (snd (rng_next g)))) / 4294967296"
  by (simp add: rng_next_def Let_def)

lemma rng_next_range: "0 \<le> fst (rng_next g) \<and> fst (rng_next g) < 1"
proof -
  define n where "n = unat (state (snd (rng_next g)))"
  have "n < 2 ^ 32"
    unfolding n_def using unsigned_less[of "state (snd (rng_next g))", where ?'a = nat] by simp
  then have "real n < 4294967296" by simp
  moreover have "fst (rng_next g) = real n / 4294967296"
    unfolding n_def by (rule rng_next_fst)
  ultimately show ?thesis by simp
qed

lemma rng_next_state:
  "unat (state (snd (rng_next g))) = (1664525 * unat (state g) + 1013904223) mod 2 ^ 32"
  by (simp add: rng_next_def Let_def unat_word_ariths mod_add_left_eq)

lemma rng_next_spare: "spareNormal (snd (rng_next g)) = spareNormal g"
  by (simp add: rng_next_def Let_def)

lemma draw_nonzero_unfold:
  "draw_nonzero g = (if fst (rng_next g) = 0 then draw_nonzero (snd (rng_next g)) else rng_next g)"
  by (subst draw_nonzero.simps) (simp add: case_prod_beta)

text \<open>At most two draws: the state after a zero draw is 0, and its successor is not.\<close>

lemma draw_nonzero_two:
  "draw_nonzero g = (if fst (rng_next g) = 0 then rng_next (snd (rng_next g)) else rng_next g)"
proof (cases "fst (rng_next g) = 0")
  case True
  then have "state (snd (rng_next g)) = 0" using rng_next_zero_iff by simp
  then have "fst (rng_next (snd (rng_next g))) \<noteq> 0" by (rule rng_next_after_zero)
  then have "draw_nonzero (snd (rng_next g)) = rng_next (snd (rng_next g))"
    by (subst draw_nonzero_unfold) simp
  with True show ?thesis by (subst draw_nonzero_unfold) simp
next
  case False
  then show ?thesis by (subst draw_nonzero_unfold) simp
qed

lemma draw_nonzero_range: "0 < fst (draw_nonzero g) \<and> fst (draw_nonzero g) < 1"
proof (cases "fst (rng_next g) = 0")
  case True
  then have "state (snd (rng_next g)) = 0" using rng_next_zero_iff by simp
  then have "fst (rng_next (snd (rng_next g))) \<noteq> 0" by (rule rng_next_after_zero)
  then show ?thesis
    using True rng_next_range[of "snd (rng_next g)"] by (simp add: draw_nonzero_two)
next
  case False
  then show ?thesis using rng_next_range[of g] by (simp add: draw_nonzero_two)
qed

lemma draw_nonzero_spare: "spareNormal (snd (draw_nonzero g)) = spareNormal g"
  by (simp add: draw_nonzero_two rng_next_spare)

lemma rng_normal_spare:
  "rng_normal mu sigma (g\<lparr>spareNormal := Some z\<rparr>) = (mu + sigma * z, g\<lparr>spareNormal := None\<rparr>)"
  by (simp add: rng_normal_def)

lemma rng_normal_fresh:
  "rng_normal mu sigma (g\<lparr>spareNormal := None\<rparr>) =
     (let g0 = g\<lparr>spareNormal := None\<rparr>;
          u = fst (draw_nonzero g0); g1 = snd (draw_nonzero g0);
          v = fst (draw_nonzero g1); g2 = snd (draw_nonzero g1)
      in (mu + sigma * (sqrt (- 2 * ln u) * cos (2 * pi * v)),
          g2\<lparr>spareNormal := Some (sqrt (- 2 * ln u) * sin (2 * pi * v))\<rparr>))"
  by (simp add: rng_normal_def Let_def case_prod_beta)

text \<open>
  C1. Two generators created from the same seed and given the same sequence of \<open>next()\<close>
  and \<open>normal()\<close> calls return the same stream of values and end in the same state.
  \<open>next()\<close> replaces the state by \<open>(1664525 * state + 1013904223) mod 2^32\<close>, leaves the
  spare alone and returns the new state divided by \<open>2^32\<close>, a value in \<open>[0, 1)\<close>. A call of
  \<open>normal(mu, sigma)\<close> on a generator without a spare draws two non-zero uniform values
  \<open>u\<close> and \<open>v\<close>, returns \<open>mu + sigma * z0\<close> and keeps the second Box-Muller sample \<open>z1\<close>;
  the call that follows returns \<open>mu' + sigma' * z1\<close>, draws nothing and clears the spare.
\<close>

theorem LcgRandom_deterministic:
  "g1 = new_LcgRandom seed \<Longrightarrow> g2 = new_LcgRandom seed \<Longrightarrow>
     rng_stream cs g1 = rng_stream cs g2
   \<and> (\<forall>g. unat (state (snd (rng_next g))) = (1664525 * unat (state g) + 1013904223) mod 2 ^ 32
          \<and> spareNormal (snd (rng_next g)) = spareNormal g
          \<and> fst (rng_next g) = real (unat (state (snd (rng_next g)))) / 2 ^ 32
          \<and> 0 \<le> fst (rng_next g) \<and> fst (rng_next g) < 1)
   \<and> (\<forall>g mu sigma mu' sigma'.
         let g0 = g\<lparr>spareNormal := None\<rparr>;
             u = fst (draw_nonzero g0); v = fst (draw_nonzero (snd (draw_nonzero g0)));
             z0 = sqrt (- 2 * ln u) * cos (2 * pi * v);
             z1 = sqrt (- 2 * ln u) * sin (2 * pi * v);
             first = rng_normal mu sigma g0;
             second = rng_normal mu' sigma' (snd first)
         in 0 < u \<and> u < 1 \<and> 0 < v \<and> v < 1
          \<and> fst first = mu + sigma * z0
          \<and> spareNormal (snd first) = Some z1
          \<and> fst second = mu' + sigma' * z1
          \<and> state (snd second) = state (snd first)
          \<and> spareNormal (snd second) = None)"
proof (intro conjI allI)
  fix g mu sigma mu' sigma'
  show "let g0 = g\<lparr>spareNormal := None\<rparr>;
             u = fst (draw_nonzero g0); v = fst (draw_nonzero (snd (draw_nonzero g0)));
             z0 = sqrt (- 2 * ln u) * cos (2 * pi * v);
             z1 = sqrt (- 2 * ln u) * sin (2 * pi * v);
             first = rng_normal mu sigma g0;
             second = rng_normal mu' sigma' (snd first)
         in 0 < u \<and> u < 1 \<and> 0 < v \<and> v < 1
          \<and> fst first = mu + sigma * z0
          \<and> spareNormal (snd first) = Some z1
          \<and> fst second = mu' + sigma' * z1
          \<and> state (snd second) = state (snd first)
          \<and> spareNormal (snd second) = None"
    using draw_nonzero_range[of "g\<lparr>spareNormal := None\<rparr>"]
      draw_nonzero_range[of "snd (draw_nonzero (g\<lparr>spareNormal := None\<rparr>))"]
    by (simp add: Let_def rng_normal_fresh rng_normal_spare)
qed (simp_all add: rng_next_state rng_next_spare rng_next_range rng_next_fst)


theorem LcgRandom_deterministic_witness:
  "rng_stream [Next, Normal 0 1, Normal 0 1, Next] (new_LcgRandom 1337)
     = rng_stream [Next, Normal 0 1, Normal 0 1, Next] (new_LcgRandom 1337)
   \<and> unat (state (snd (rng_next (new_LcgRandom 1337)))) = 3239374148
   \<and> fst (rng_next (new_LcgRandom 1337)) = 3239374148 / 4294967296"
proof -
  have s: "state (new_LcgRandom 1337) = 1337"
    by (simp add: new_LcgRandom_def ToUint32_def)
  have n: "unat (state (snd (rng_next (new_LcgRandom 1337)))) = 3239374148"
    using LcgRandom_deterministic[where seed = 1337 and cs = "[]", OF refl refl] by (simp add: s)
  have f: "fst (rng_next (new_LcgRandom 1337))
      = real (unat (state (snd (rng_next (new_LcgRandom 1337))))) / 2 ^ 32"
    using LcgRandom_deterministic[where seed = 1337 and cs = "[]", OF refl refl] by blast
  show ?thesis
    using LcgRandom_deterministic[where seed = 1337 and cs = "[Next, Normal 0 1, Normal 0 1, Next]", OF refl refl]
    unfolding f n by simp
qed

subsection \<open>The physics of one tick\<close>

lemma clamp_alt: "clamp v lo hi = min hi (max lo v)"
  by (simp add: clamp_def)

lemma clamp_le_hi: "clamp v lo hi \<le> hi"
  by (simp add: clamp_alt)

lemma clamp_ge_lo: "lo \<le> hi \<Longrightarrow> lo \<le> clamp v lo hi"
  by (simp add: clamp_alt)

lemma clamp_id: "lo \<le> v \<Longrightarrow> v \<le> hi \<Longrightarrow> clamp v lo hi = v"
  by (simp add: clamp_alt)

lemma clamp_mono_le: "lo \<le> t \<Longrightarrow> t \<le> hi \<Longrightarrow> v \<le> t \<Longrightarrow> clamp v lo hi \<le> t"
  by (simp add: clamp_alt min_def max_def)


lemma targetSoc_range: "0 \<le> targetSoc ch \<and> targetSoc ch \<le> 100"
  by (simp add: targetSoc_def clamp_alt min_def max_def)

lemma capKwh_pos: "0 < capKwh ch"
  by (simp add: capKwh_def max_def)

lemma energyNeedKwh_nonneg: "0 \<le> energyNeedKwh ch"
  by (simp add: energyNeedKwh_def)





lemma charge_power_step:
  assumes "0 < dt"
  shows "charge_power dt ch * dt \<le> energyNeedKwh ch"
proof -
  let ?p = "tapered_kw ch"
  let ?p2 = "if max 0 (?p * dt) > energyNeedKwh ch \<and> dt > 0 then energyNeedKwh ch / dt else ?p"
  have cp: "charge_power dt ch = clamp ?p2 0 (max_kw ch)"
    by (simp add: charge_power_def Let_def)
  have p2: "?p2 * dt \<le> energyNeedKwh ch"
  proof (cases "max 0 (?p * dt) > energyNeedKwh ch \<and> dt > 0")
    case True
    then show ?thesis using assms by simp
  next
    case False
    then have "max 0 (?p * dt) \<le> energyNeedKwh ch" using assms by (simp add: not_less)
    then have "?p * dt \<le> energyNeedKwh ch" by (simp add: max_def split: if_splits)
    then show ?thesis using False by simp
  qed
  show ?thesis
  proof (cases "0 \<le> ?p2")
    case True
    then have "charge_power dt ch \<le> ?p2" unfolding cp by (simp add: clamp_alt min_def max_def)
    then have "charge_power dt ch * dt \<le> ?p2 * dt" using assms by (intro mult_right_mono) simp_all
    then show ?thesis using p2 by linarith
  next
    case False
    then have "charge_power dt ch \<le> 0" unfolding cp by (simp add: clamp_alt min_def max_def)
    then have "charge_power dt ch * dt \<le> 0" using assms by (simp add: mult_le_0_iff)
    then show ?thesis using energyNeedKwh_nonneg[of ch] by linarith
  qed
qed

lemma tick_charger_fields:
  "cid (fst (tick_charger dt ch)) = cid ch"
  "ctype (fst (tick_charger dt ch)) = ctype ch"
  "max_kw (fst (tick_charger dt ch)) = max_kw ch"
  "ctrl_limit_kw (fst (tick_charger dt ch)) = ctrl_limit_kw ch"
  "vehicle_max_charge_kw (fst (tick_charger dt ch)) = vehicle_max_charge_kw ch"
  "vehicle_target_soc_pct (fst (tick_charger dt ch)) = vehicle_target_soc_pct ch"
  "vehicle_capacity_kwh (fst (tick_charger dt ch)) = vehicle_capacity_kwh ch"
  by (simp_all add: tick_charger_def Let_def)

lemma tick_chargers_map:
  "fst (tick_chargers dt chs) = map (\<lambda>ch. fst (tick_charger dt ch)) chs"
  by (induction chs) (simp_all add: case_prod_beta)

lemma tick_physics_chargers:
  "evcs_chargers (fst (tick_physics hour dt (m, g)))
   = map (\<lambda>ch. fst (tick_charger dt ch)) (evcs_chargers m)"
  by (simp add: tick_physics_def tick_grid_def tick_evcs_def tick_storage_def tick_devices_def
      tick_pv_def tick_tariff_def Let_def case_prod_beta tick_chargers_map)



lemma tick_charger_charging:
  assumes "is_charging ch"
  shows "tick_charger dt ch =
     (ch\<lparr>meas_power_kw := charge_power dt ch,
         meas_status := (if charge_power dt ch > 0.01 then ''Charging'' else ''Suspended''),
         meas_energy_kwh := clamp (meas_energy_kwh ch + charge_power dt ch * dt * 0.96) 0 1000000,
         vehicle_soc_pct :=
           clamp (vehicle_soc_pct ch + (charge_power dt ch * dt * 0.96 / capKwh ch) * 100) 0 100\<rparr>,
      charge_power dt ch,
      clamp (meas_energy_kwh ch + charge_power dt ch * dt * 0.96) 0 1000000)"
  using assms by (simp add: is_charging_def tick_charger_def Let_def mult.commute)

lemma charging_need:
  assumes "is_charging ch"
  shows "energyNeedKwh ch = (targetSoc ch - vehicle_soc_pct ch) / 100 * capKwh ch"
proof -
  have "0 \<le> (targetSoc ch - vehicle_soc_pct ch) / 100 * capKwh ch"
    using assms capKwh_pos[of ch] by (simp add: is_charging_def)
  then show ?thesis by (simp add: energyNeedKwh_def)
qed

lemma eff_le: "x \<le> y \<Longrightarrow> 0 \<le> y \<Longrightarrow> x * 0.96 \<le> (y::real)"
  by simp

lemma pct_le: "a \<le> (t - s) / 100 \<Longrightarrow> s + a * 100 \<le> (t::real)"
  by simp

lemma charging_no_overshoot:
  assumes "is_charging ch" "0 < dt"
  shows "vehicle_soc_pct ch + (charge_power dt ch * dt * 0.96 / capKwh ch) * 100 \<le> targetSoc ch"
proof -
  let ?p = "charge_power dt ch"
  have need: "?p * dt \<le> (targetSoc ch - vehicle_soc_pct ch) / 100 * capKwh ch"
    using charge_power_step[OF assms(2), of ch] charging_need[OF assms(1)] by simp
  have nn: "0 \<le> (targetSoc ch - vehicle_soc_pct ch) / 100 * capKwh ch"
    using charging_need[OF assms(1)] energyNeedKwh_nonneg[of ch] by simp
  have "?p * dt * 0.96 \<le> (targetSoc ch - vehicle_soc_pct ch) / 100 * capKwh ch"
    using need nn by (rule eff_le)
  then have "?p * dt * 0.96 / capKwh ch \<le> (targetSoc ch - vehicle_soc_pct ch) / 100"
    using capKwh_pos[of ch] by (simp add: pos_divide_le_eq)
  then show ?thesis by (rule pct_le)
qed


lemma dtSec_range: "0.2 \<le> dtSec nowMs lastMs \<and> dtSec nowMs lastMs \<le> 60"
  by (simp add: dtSec_def)

lemma dtH_pos: "0 < dtH nowMs lastMs"
  using dtSec_range[of nowMs lastMs] by (simp add: dtH_def)

lemma tick_physics_storage:
  "storage_soc_pct (fst (tick_physics hour dt (m, g))) = storage_soc_pct (tick_storage dt m)"
  "storage_power_kw (fst (tick_physics hour dt (m, g))) = storage_power_kw (tick_storage dt m)"
  by (auto simp: tick_physics_def tick_grid_def tick_evcs_def tick_storage_def tick_devices_def
      tick_pv_def tick_tariff_def storagePower_def Let_def case_prod_beta)

lemma tick_physics_grid:
  "grid_available (fst (tick_physics hour dt (m, g))) = grid_available m"
  "grid_limit_kw (fst (tick_physics hour dt (m, g))) = grid_limit_kw m"
  by (simp_all add: tick_physics_def tick_grid_def tick_evcs_def tick_storage_def tick_devices_def
      tick_pv_def tick_tariff_def Let_def case_prod_beta)

lemma tick_grid_result:
  "grid_power_kw (fst (tick_grid ev (m, g))) =
     (if grid_available m then
        clamp (grid_base_load_kw m + clamp (fst (rng_normal 0 0.3 g)) (- 1) 1) 0 5000
        + heatpump_power_kw m + ev - pv_power_kw m - chp_power_kw m - generator_power_kw m
        - storage_power_kw m
      else 0)"
  "grid_over_limit (fst (tick_grid ev (m, g))) =
     (grid_available m \<and> grid_power_kw (fst (tick_grid ev (m, g))) > grid_limit_kw m + 1 / 1000000)"
  "grid_available (fst (tick_grid ev (m, g))) = grid_available m"
  "grid_limit_kw (fst (tick_grid ev (m, g))) = grid_limit_kw m"
  by (simp_all add: tick_grid_def Let_def case_prod_beta)


lemma pos_times_100: "0 < (a::real) \<Longrightarrow> 0 < a * 100"
  by simp

lemma is_charging_lm6_c01: "is_charging lm6_c01"
  by (simp add: is_charging_def lm6_c01_def targetSoc_def clamp_alt)

subsection \<open>The change publisher\<close>

lemma setChanged_number:
  "c k = Some (JNumber (Fin p)) \<Longrightarrow>
   setChanged k (JNumber (Fin a)) c =
     (if \<bar>a - p\<bar> > 1 / 1000000 then (c(k \<mapsto> JNumber (Fin a)), Some (JNumber (Fin a))) else (c, None))"
  by (simp add: setChanged_def Let_def)

lemma setChanged_fresh:
  "c k = None \<Longrightarrow> v \<noteq> JUndefined \<Longrightarrow>
   setChanged k v c =
     (c(k \<mapsto> (if v = JNumber NaN then JNull else v)), Some (if v = JNumber NaN then JNull else v))"
  by (cases v) (simp_all add: setChanged_def Let_def)

lemma setChanged_cases:
  "setChanged k v c = (c, None) \<or>
   setChanged k v c = (c(k \<mapsto> (if v = JNumber NaN then JNull else v)),
                       Some (if v = JNumber NaN then JNull else v))"
  by (simp add: setChanged_def Let_def)

lemma setChanged_other:
  assumes "\<not> (\<exists>a b. (if v = JNumber NaN then JNull else v) = JNumber a
                   \<and> (case c k of None \<Rightarrow> JUndefined | Some p \<Rightarrow> p) = JNumber b)"
  shows "snd (setChanged k v c) \<noteq> None \<longleftrightarrow>
         (if v = JNumber NaN then JNull else v) \<noteq> (case c k of None \<Rightarrow> JUndefined | Some p \<Rightarrow> p)"
  using assms
  by (auto simp: setChanged_def Let_def split: jsval.splits option.splits)

subsection \<open>Departure times\<close>

lemma floor_clamp_nat: "\<lfloor>clamp (real n) 0 (real k)\<rfloor> = int (min k n)"
proof -
  have "clamp (real n) 0 (real k) = real (min k n)"
    by (simp add: clamp_alt min_def max_def)
  then show ?thesis by simp
qed

lemma setHours_time_of_day:
  assumes "0 \<le> hh" "hh \<le> 23" "0 \<le> mm" "mm \<le> 59"
  shows "(setHours off now hh mm + off) mod dayMs = hh * 3600000 + mm * 60000"
    and "(setHours off now hh mm + dayMs + off) mod dayMs = hh * 3600000 + mm * 60000"
    and "now - dayMs < setHours off now hh mm"
    and "setHours off now hh mm < now + dayMs"
proof -
  define L where "L = now + off"
  define x where "x = hh * 3600000 + mm * 60000"
  have x: "0 \<le> x" "x < dayMs" using assms by (simp_all add: x_def dayMs_def)
  have r: "0 \<le> L mod dayMs" "L mod dayMs < dayMs" by (simp_all add: dayMs_def)
  have M: "L - L mod dayMs = dayMs * (L div dayMs)" by (simp add: minus_mod_eq_mult_div)
  have sh: "setHours off now hh mm = L - L mod dayMs + x - off"
    by (simp add: setHours_def Let_def L_def x_def)
  have "(setHours off now hh mm + off) mod dayMs = (dayMs * (L div dayMs) + x) mod dayMs"
    unfolding sh M by simp
  also have "\<dots> = x" using x by simp
  finally show "(setHours off now hh mm + off) mod dayMs = hh * 3600000 + mm * 60000"
    by (simp add: x_def)
  have "(setHours off now hh mm + dayMs + off) mod dayMs
      = (dayMs * (L div dayMs + 1) + x) mod dayMs"
    unfolding sh M by (simp add: algebra_simps)
  also have "\<dots> = x mod dayMs" by (simp only: mod_mult_self4)
  also have "\<dots> = x" using x by simp
  finally show "(setHours off now hh mm + dayMs + off) mod dayMs = hh * 3600000 + mm * 60000"
    by (simp add: x_def)
  show "now - dayMs < setHours off now hh mm"
    unfolding sh using x r L_def by linarith
  show "setHours off now hh mm < now + dayMs"
    unfolding sh using x r L_def by linarith
qed

lemma parse_not_string: "(\<forall>s. v \<noteq> JString s) \<Longrightarrow> parseDepartureToTimestamp rt v now = None"
  by (cases v) (simp_all add: parseDepartureToTimestamp_def)

lemma parse_iso:
  "CHR ''T'' \<in> set (trim s) \<Longrightarrow> DateParse rt (trim s) = Some t \<Longrightarrow>
   parseDepartureToTimestamp rt (JString s) now = Some t"
  by (simp add: parseDepartureToTimestamp_def Let_def)

lemma parse_unparseable:
  "CHR ''T'' \<notin> set (trim s) \<or> DateParse rt (trim s) = None \<Longrightarrow> match_HHMM (trim s) = None \<Longrightarrow>
   parseDepartureToTimestamp rt (JString s) now = None"
  by (auto simp: parseDepartureToTimestamp_def Let_def)

lemma parse_hhmm:
  assumes "CHR ''T'' \<notin> set (trim s) \<or> DateParse rt (trim s) = None"
    and "match_HHMM (trim s) = Some (h, m)"
  shows "parseDepartureToTimestamp rt (JString s) now =
     Some (let c = setHours (tzOffsetMs rt) now (int (min 23 (digits_val h))) (int (min 59 (digits_val m)))
           in if c \<le> now then c + dayMs else c)"
proof -
  have iso: "(if CHR ''T'' \<in> set (trim s) then DateParse rt (trim s) else None) = None"
    using assms(1) by auto
  have h: "\<lfloor>clamp (real (digits_val h)) 0 23\<rfloor> = int (min 23 (digits_val h))"
    using floor_clamp_nat[of "digits_val h" 23] by simp
  have m: "\<lfloor>clamp (real (digits_val m)) 0 59\<rfloor> = int (min 59 (digits_val m))"
    using floor_clamp_nat[of "digits_val m" 59] by simp
  show ?thesis
    unfolding parseDepartureToTimestamp_def
    by (simp add: Let_def iso assms(2) h m del: of_nat_min)
qed


lemma departure_ts_irrelevant1:
  "targetSoc (ch\<lparr>vehicle_departure_ts := d\<rparr>) = targetSoc ch"
  "capKwh (ch\<lparr>vehicle_departure_ts := d\<rparr>) = capKwh ch"
  "ceiling_kw (ch\<lparr>vehicle_departure_ts := d\<rparr>) = ceiling_kw ch"
  by (simp_all add: targetSoc_def capKwh_def ceiling_kw_def)

lemma departure_ts_irrelevant2:
  "energyNeedKwh (ch\<lparr>vehicle_departure_ts := d\<rparr>) = energyNeedKwh ch"
  "tapered_kw (ch\<lparr>vehicle_departure_ts := d\<rparr>) = tapered_kw ch"
  by (simp_all add: energyNeedKwh_def tapered_kw_def departure_ts_irrelevant1)

lemma departure_ts_irrelevant:
  "charge_power dt (ch\<lparr>vehicle_departure_ts := d\<rparr>) = charge_power dt ch"
  by (simp add: charge_power_def departure_ts_irrelevant2 cong: if_cong)

lemma tick_charger_departure_ts:
  "tick_charger dt (ch\<lparr>vehicle_departure_ts := d\<rparr>) =
     (case tick_charger dt ch of (ch', p, e) \<Rightarrow> (ch'\<lparr>vehicle_departure_ts := d\<rparr>, p, e))"
  by (simp add: tick_charger_def Let_def departure_ts_irrelevant departure_ts_irrelevant1)


lemma match_0615: "match_HHMM (trim '' 06:15 '') = Some (''06'', ''15'')"
  by (simp add: trim_def is_ws_def is_digit_def)

subsection \<open>Command writes\<close>

lemma normalizePowerKw_simps:
  "normalizePowerKw rt (JNumber (Fin w)) = w / 1000"
  "normalizePowerKw rt (JNumber NaN) = 0"
  "normalizePowerKw rt (JNumber PosInf) = 0"
  "normalizePowerKw rt (JNumber NegInf) = 0"
  "normalizePowerKw rt JUndefined = 0"
  by (simp_all add: normalizePowerKw_def)

lemma clampV_Fin: "clampV rt (JNumber (Fin x)) lo hi = clamp x lo hi"
  by (simp add: clampV_def clamp_def)

lemma match_evcs_id:
  assumes "is_digit d1" "is_digit d2" "tail \<noteq> []" "list_all (\<lambda>c. c \<noteq> CHR 0x0A \<and> c \<noteq> CHR 0x0D) tail"
  shows "match_evcs (''evcs.'' @ [CHR ''c'', d1, d2] @ ''.'' @ tail) = Some ([CHR ''c'', d1, d2], tail)"
  using assms by (cases tail) (simp_all add: match_evcs_def)

lemma applyWrite_model_storage:
  "applyWrite_model rt now ''storage.ctrl.power_set_kw'' value m
     = (True, m\<lparr>storage_ctrl_power_set_kw := normalizePowerKw rt value\<rparr>)"
  by (simp add: applyWrite_model_def)

lemma applyWrite_model_devices:
  "applyWrite_model rt now ''heatpump.ctrl.power_set_kw'' value m
     = (True, m\<lparr>heatpump_ctrl_power_set_kw := normalizePowerKw rt value\<rparr>)"
  "applyWrite_model rt now ''chp.ctrl.power_set_kw'' value m
     = (True, m\<lparr>chp_ctrl_power_set_kw := normalizePowerKw rt value\<rparr>)"
  "applyWrite_model rt now ''generator.ctrl.power_set_kw'' value m
     = (True, m\<lparr>generator_ctrl_power_set_kw := normalizePowerKw rt value\<rparr>)"
  by (simp_all add: applyWrite_model_def)

lemma applyWrite_model_unscaled:
  "applyWrite_model rt now ''grid.limit_kw'' value m
     = (True, m\<lparr>grid_limit_kw := clampV rt value 1 5000\<rparr>)"
  "applyWrite_model rt now ''grid.base_load_kw'' value m
     = (True, m\<lparr>grid_base_load_kw := clampV rt value 0 5000\<rparr>)"
  "applyWrite_model rt now ''tariff.price_ct_per_kwh'' value m
     = (True, m\<lparr>tariff_price_ct_per_kwh := clampV rt value (- 500) 500\<rparr>)"
  "applyWrite_model rt now ''pv.installed_kwp'' value m
     = (True, m\<lparr>pv_installed_kwp := clampV rt value 0 5000\<rparr>)"
  "applyWrite_model rt now ''pv.weather_factor'' value m
     = (True, m\<lparr>pv_weather_factor := clampV rt value 0 1\<rparr>)"
  "applyWrite_model rt now ''pv.override.power_kw'' value m
     = (True, m\<lparr>pv_override_power_kw := clampV rt value 0 100000\<rparr>)"
  "applyWrite_model rt now ''storage.capacity_kwh'' value m
     = (True, m\<lparr>storage_capacity_kwh := clampV rt value 1 50000\<rparr>)"
  "applyWrite_model rt now ''storage.max_charge_kw'' value m
     = (True, m\<lparr>storage_max_charge_kw := clampV rt value 0 50000\<rparr>)"
  "applyWrite_model rt now ''storage.max_discharge_kw'' value m
     = (True, m\<lparr>storage_max_discharge_kw := clampV rt value 0 50000\<rparr>)"
  "applyWrite_model rt now ''storage.soc_pct'' value m
     = (True, m\<lparr>storage_soc_pct := clampV rt value 0 100\<rparr>)"
  by (simp_all add: applyWrite_model_def)

lemma applyWrite_charger_numeric:
  "applyWrite_charger rt now ''ctrl.limit_kw'' value ch
     = Some (ch\<lparr>ctrl_limit_kw := clamp (normalizePowerKw rt value) 0 10000\<rparr>)"
  "applyWrite_charger rt now ''ctrl.priority'' value ch
     = Some (ch\<lparr>ctrl_priority := clampV rt value 1 10\<rparr>)"
  "applyWrite_charger rt now ''vehicle.soc_pct'' value ch
     = Some (ch\<lparr>vehicle_soc_pct := clampV rt value 0 100\<rparr>)"
  "applyWrite_charger rt now ''vehicle.capacity_kwh'' value ch
     = Some (ch\<lparr>vehicle_capacity_kwh := clampV rt value 1 1000\<rparr>)"
  "applyWrite_charger rt now ''vehicle.max_charge_kw'' value ch
     = Some (ch\<lparr>vehicle_max_charge_kw := clampV rt value 0 2000\<rparr>)"
  "applyWrite_charger rt now ''vehicle.target_soc_pct'' value ch
     = Some (ch\<lparr>vehicle_target_soc_pct := clampV rt value 0 100\<rparr>)"
  by (simp_all add: applyWrite_charger_def)

lemma evcs_relId_not_top:
  "''evcs.'' @ xs \<noteq> ''grid.limit_kw''" "''evcs.'' @ xs \<noteq> ''grid.base_load_kw''"
  "''evcs.'' @ xs \<noteq> ''grid.available''" "''evcs.'' @ xs \<noteq> ''tariff.mode''"
  "''evcs.'' @ xs \<noteq> ''tariff.price_ct_per_kwh''" "''evcs.'' @ xs \<noteq> ''pv.installed_kwp''"
  "''evcs.'' @ xs \<noteq> ''pv.weather_factor''" "''evcs.'' @ xs \<noteq> ''pv.override.enabled''"
  "''evcs.'' @ xs \<noteq> ''pv.override.power_kw''" "''evcs.'' @ xs \<noteq> ''storage.capacity_kwh''"
  "''evcs.'' @ xs \<noteq> ''storage.max_charge_kw''" "''evcs.'' @ xs \<noteq> ''storage.max_discharge_kw''"
  "''evcs.'' @ xs \<noteq> ''storage.soc_pct''" "''evcs.'' @ xs \<noteq> ''storage.ctrl.enabled''"
  "''evcs.'' @ xs \<noteq> ''storage.ctrl.power_set_kw''" "''evcs.'' @ xs \<noteq> ''heatpump.ctrl.enabled''"
  "''evcs.'' @ xs \<noteq> ''heatpump.ctrl.power_set_kw''" "''evcs.'' @ xs \<noteq> ''chp.ctrl.enabled''"
  "''evcs.'' @ xs \<noteq> ''chp.ctrl.power_set_kw''" "''evcs.'' @ xs \<noteq> ''generator.ctrl.enabled''"
  "''evcs.'' @ xs \<noteq> ''generator.ctrl.power_set_kw''"
  by simp_all

lemma applyWrite_model_evcs:
  assumes "is_digit d1" "is_digit d2" "tail \<noteq> []"
    and "list_all (\<lambda>c. c \<noteq> CHR 0x0A \<and> c \<noteq> CHR 0x0D) tail"
    and "find (\<lambda>ch. cid ch = [CHR ''c'', d1, d2]) (evcs_chargers m) = Some ch"
    and "applyWrite_charger rt now tail value ch = Some ch'"
  shows "applyWrite_model rt now (''evcs.'' @ [CHR ''c'', d1, d2] @ ''.'' @ tail) value m
     = (True, m\<lparr>evcs_chargers :=
                 update_first (\<lambda>ch. cid ch = [CHR ''c'', d1, d2]) ch' (evcs_chargers m)\<rparr>)"
proof -
  have "applyWrite_model rt now (''evcs.'' @ ([CHR ''c'', d1, d2] @ ''.'' @ tail)) value m
     = (True, m\<lparr>evcs_chargers :=
                 update_first (\<lambda>ch. cid ch = [CHR ''c'', d1, d2]) ch' (evcs_chargers m)\<rparr>)"
    unfolding applyWrite_model_def
    using match_evcs_id[OF assms(1-4)] assms(5,6)
    by (simp only: evcs_relId_not_top if_False) simp
  then show ?thesis by simp
qed


subsection \<open>Scenario engine and suite runner\<close>




lemma clampN_range: "lo \<le> hi \<Longrightarrow> lo \<le> clampN n lo hi \<and> clampN n lo hi \<le> hi"
  by (cases n) simp_all

lemma onReady_duration:
  "30 \<le> scenarioDurationSec (onReady_config rt raw) \<and> scenarioDurationSec (onReady_config rt raw) \<le> 86400"
  using clampN_range[of 30 86400] by (simp add: onReady_config_def clampV_def)

lemma timeline_parts_phase:
  "snd (snd (timeline_grid_limit_drop st0 e s)) = ''running'' \<or> snd (snd (timeline_grid_limit_drop st0 e s)) = ''done''"
  "snd (snd (timeline_grid_14a_limit st0 e s)) = ''running'' \<or> snd (snd (timeline_grid_14a_limit st0 e s)) = ''done''"
  "snd (snd (timeline_base_load_spike st0 e s)) = ''running'' \<or> snd (snd (timeline_base_load_spike st0 e s)) = ''done''"
  "snd (snd (timeline_tariff_pulse st0 e s)) = ''running'' \<or> snd (snd (timeline_tariff_pulse st0 e s)) = ''done''"
  "snd (snd (timeline_tariff_extremes st0 e s)) = ''running'' \<or> snd (snd (timeline_tariff_extremes st0 e s)) = ''done''"
  "snd (snd (timeline_pv_cloud_ramp rt e s)) = ''running'' \<or> snd (snd (timeline_pv_cloud_ramp rt e s)) = ''done''"
  "snd (snd (timeline_wave code i e s)) = ''running'' \<or> snd (snd (timeline_wave code i e s)) = ''done''"
  "snd (snd (timeline_grid_blackout st0 e s)) = ''running'' \<or> snd (snd (timeline_grid_blackout st0 e s)) = ''done''"
  "snd (snd (timeline_fuzz rt code i e s)) = ''running'' \<or> snd (snd (timeline_fuzz rt code i e s)) = ''done''"
  "snd (snd (timeline_stages code i end_s st0 e s)) = ''running'' \<or> snd (snd (timeline_stages code i end_s st0 e s)) = ''done''"
  by (simp_all add: timeline_grid_limit_drop_def timeline_grid_14a_limit_def
      timeline_base_load_spike_def timeline_tariff_pulse_def timeline_tariff_extremes_def
      timeline_pv_cloud_ramp_def timeline_wave_def timeline_grid_blackout_def timeline_fuzz_def
      timeline_stages_def Let_def split: prod.splits)

lemma timeline_case_phase:
  "snd (snd (timeline_case rt code i elapsed s)) = ''running''
   \<or> snd (snd (timeline_case rt code i elapsed s)) = ''done''"
  by (simp add: timeline_case_def Let_def timeline_parts_phase)


lemma runScenarioTimeline_idle:
  "\<not> running (scenario a) \<Longrightarrow> runScenarioTimeline rt code nowMs a = a"
  by (simp add: runScenarioTimeline_def split: option.splits)

lemma runScenarioTimeline_other:
  "suite (runScenarioTimeline rt code nowMs a) = suite a"
  "cfg (runScenarioTimeline rt code nowMs a) = cfg a"
  "reset_pending (scenario (runScenarioTimeline rt code nowMs a)) = reset_pending (scenario a)"
  "active (scenario (runScenarioTimeline rt code nowMs a)) = active (scenario a)"
  "duration_s (scenario (runScenarioTimeline rt code nowMs a)) = duration_s (scenario a)"
  "(model (runScenarioTimeline rt code nowMs a) = None) = (model a = None)"
  by (simp_all add: runScenarioTimeline_def Let_def split: option.splits prod.splits)

lemma runScenarioTimeline_finish:
  assumes "model a \<noteq> None" "running (scenario a)" "started_ms (scenario a) \<noteq> 0"
    and "0 < duration_s (scenario a)"
    and "duration_s (scenario a) \<le> (nowMs - started_ms (scenario a)) / 1000"
  shows "\<not> running (scenario (runScenarioTimeline rt code nowMs a))"
    and "phase (scenario (runScenarioTimeline rt code nowMs a)) = ''done''"
    and "justFinished (scenario (runScenarioTimeline rt code nowMs a))"
    and "justFinishedId (scenario (runScenarioTimeline rt code nowMs a)) = active (scenario a)"
    and "justFinishedReason (scenario (runScenarioTimeline rt code nowMs a)) = ''timeout''"
  using assms
  by (auto simp: runScenarioTimeline_def Let_def split: option.splits prod.splits)

lemma runScenarioTimeline_hold:
  assumes "model a = Some m" "running (scenario a)" "started_ms (scenario a) \<noteq> 0"
    and "0 < duration_s (scenario a)"
    and "(nowMs - started_ms (scenario a)) / 1000 < duration_s (scenario a)"
  shows "running (scenario (runScenarioTimeline rt code nowMs a))"
    and "phase (scenario (runScenarioTimeline rt code nowMs a)) = ''running''"
    and "started_ms (scenario (runScenarioTimeline rt code nowMs a)) = started_ms (scenario a)"
    and "justFinished (scenario (runScenarioTimeline rt code nowMs a)) = justFinished (scenario a)"
    and "status (scenario (runScenarioTimeline rt code nowMs a)) =
          (let tc = timeline_case rt code (active (scenario a))
                      ((nowMs - started_ms (scenario a)) / 1000) (m, rng a, data (scenario a))
           in if snd (snd tc) = ''done'' then fst (snd tc) @ '' (stabilisiert)'' else fst (snd tc))"
proof -
  let ?e = "(nowMs - started_ms (scenario a)) / 1000"
  obtain m' g' d' st ph where tc:
    "timeline_case rt code (active (scenario a)) ?e (m, rng a, data (scenario a)) = ((m', g', d'), st, ph)"
    by (metis prod.exhaust)
  have ph: "ph = ''running'' \<or> ph = ''done''"
    using timeline_case_phase[of rt code "active (scenario a)" ?e "(m, rng a, data (scenario a))"]
    unfolding tc by simp
  have sc: "scenario (runScenarioTimeline rt code nowMs a) =
      (scenario a)\<lparr>data := d',
         status := (if ph = ''done'' then st @ '' (stabilisiert)'' else st),
         phase := (if ph = ''done'' then ''running'' else ph)\<rparr>"
    using assms by (simp add: runScenarioTimeline_def Let_def tc)
  show "running (scenario (runScenarioTimeline rt code nowMs a))" unfolding sc using assms by simp
  show "started_ms (scenario (runScenarioTimeline rt code nowMs a)) = started_ms (scenario a)"
    unfolding sc by simp
  show "justFinished (scenario (runScenarioTimeline rt code nowMs a)) = justFinished (scenario a)"
    unfolding sc by simp
  show "status (scenario (runScenarioTimeline rt code nowMs a)) =
          (let tc = timeline_case rt code (active (scenario a)) ?e (m, rng a, data (scenario a))
           in if snd (snd tc) = ''done'' then fst (snd tc) @ '' (stabilisiert)'' else fst (snd tc))"
    unfolding sc Let_def tc by simp
  show "phase (scenario (runScenarioTimeline rt code nowMs a)) = ''running''"
    unfolding sc using ph by auto
qed

lemma applyScenario_throws:
  assumes "model a \<noteq> None" "cfg a \<noteq> None" "normalizeScenarioId code = None"
  shows "applyScenario rt code clock sid start a = Thrown TypeError a"
  using assms by (auto simp: applyScenario_def)

lemma applyScenario_not_ready:
  assumes "model a = None \<or> cfg a = None"
  shows "applyScenario rt code clock sid start a
           = Returned (a\<lparr>scenario := (scenario a)\<lparr>status := ''model not ready''\<rparr>\<rparr>)"
  using assms by (auto simp: applyScenario_def split: option.splits)


lemma applyScenario_ready:
  "model (state_of (applyScenario rt code clock sid start a)) = None \<longleftrightarrow> model a = None"
  "cfg (state_of (applyScenario rt code clock sid start a)) = cfg a"
  by (simp_all add: applyScenario_def Let_def split: option.splits prod.splits)

lemma handleScenarioFinished_idle:
  "\<not> justFinished (scenario a) \<Longrightarrow> handleScenarioFinished rt code nowMs clock a = Returned a"
  by (simp add: handleScenarioFinished_def)

lemma processPendingResets_idle:
  "suite_running (suite a) \<or> \<not> reset_pending (scenario a)
   \<Longrightarrow> processPendingResets rt code nowMs clock a = Returned a"
  by (auto simp: processPendingResets_def)

lemma suiteTick_idle:
  "\<not> suite_running (suite a) \<or> stage (suite a) \<noteq> ''pause'' \<or> nowMs < pause_end_ms (suite a)
   \<Longrightarrow> suiteTick rt code nowMs clock a = Returned a"
  by (auto simp: suiteTick_def)

lemma pauseMs_cfg: "cfg x = cfg y \<Longrightarrow> pauseMs x = pauseMs y"
  by (simp add: pauseMs_def)


lemma startSuiteAll_ready:
  assumes "\<not> suite_running (suite a)"
  shows "model (state_of (startSuiteAll rt code clock a)) = None \<longleftrightarrow> model a = None"
    and "cfg (state_of (startSuiteAll rt code clock a)) = cfg a"
  using assms by (auto simp: startSuiteAll_def Let_def applyScenario_ready)

lemma startSuiteAll_throws:
  assumes "model a \<noteq> None" "cfg a \<noteq> None" "normalizeScenarioId code = None"
  shows "\<exists>a'. startSuiteAll rt code clock a = Thrown TypeError a'"
  using assms
  by (auto simp: startSuiteAll_def Let_def stopSuite_def applyScenario_throws)






text \<open>
  Without the method \<open>_normalizeScenarioId\<close>, the suite tick that ends a pause raises the
  error of \<open>_applyScenario\<close>, and the scenario that the suite waits for does not run.
\<close>

lemma suiteTick_throws:
  assumes "suite_running (suite b)" "stage (suite b) = ''pause''" "pause_end_ms (suite b) \<le> nowMs"
    and "model b \<noteq> None" "cfg b \<noteq> None" "normalizeScenarioId code = None"
  shows "\<exists>b'. suiteTick rt code nowMs clock b = Thrown TypeError b'
              \<and> scenario b' = scenario b"
  using assms by (simp add: suiteTick_def Let_def applyScenario_throws)

text \<open>
  A suite in stage \<open>scenario\<close> whose scenario does not run and has not finished stays as it
  is: the tick changes nothing in the adapter.
\<close>

lemma suite_waits:
  assumes "suite_running (suite a)" "stage (suite a) = ''scenario''"
    and "\<not> running (scenario a)" "\<not> justFinished (scenario a)"
  shows "engine_tick rt code nowMs clock a = Returned a"
proof -
  have p: "processPendingResets rt code nowMs clock a = Returned a"
    using assms(1) by (simp add: processPendingResets_idle)
  have s: "suiteTick rt code nowMs clock a = Returned a"
    using assms(2) by (simp add: suiteTick_idle)
  have r: "runScenarioTimeline rt code nowMs a = a"
    using assms(3) by (rule runScenarioTimeline_idle)
  have h: "handleScenarioFinished rt code nowMs clock a = Returned a"
    using assms(4) by (rule handleScenarioFinished_idle)
  show ?thesis by (simp add: engine_tick_def p s r h)
qed

lemma ready_adapter_2h:
  "cfg (ready_adapter config_2h) = Some (onReady_config test_runtime config_2h)"
  "model (ready_adapter config_2h) = Some (default_plant [lm6_c01])"
  "scenario (ready_adapter config_2h) = scenario initial_adapter"
  "suite (ready_adapter config_2h) = suite initial_adapter"
  by (simp_all add: ready_adapter_def Let_def initial_adapter_def)





text \<open>
  C3. For a charge point that charges in this tick (no fault, no frozen meter, plugged,
  enabled, SoC more than 0.01 below the target) with a target that is not negative: the
  power \<open>p\<close> written satisfies \<open>p * dtH \<le>\<close> the energy still needed to reach the target
  SoC, the delivered energy is \<open>p * dtH * 0.96\<close>, \<open>energy_kwh\<close> grows by it (clamped to
  \<open>[0, 10^6]\<close>), \<open>soc_pct\<close> grows by delivered energy over capacity (clamped to \<open>[0, 100]\<close>),
  and the new \<open>soc_pct\<close> is at most the target. \<open>dtH\<close> is the tick's own time step.
\<close>

theorem charging_no_overshoot_in_tick:
  assumes i: "i < length (evcs_chargers m)"
    and c: "is_charging (evcs_chargers m ! i)"
    and t: "0 \<le> vehicle_target_soc_pct (evcs_chargers m ! i)"
  shows "let dt = dtH nowMs lastMs;
             ch = evcs_chargers m ! i;
             ch' = evcs_chargers (fst (tick_physics hour dt (m, g))) ! i;
             p = meas_power_kw ch';
             deliveredKwh = p * dt * 0.96
         in p * dt \<le> (targetSoc ch - vehicle_soc_pct ch) / 100 * capKwh ch
          \<and> meas_energy_kwh ch' = clamp (meas_energy_kwh ch + deliveredKwh) 0 1000000
          \<and> vehicle_soc_pct ch' = clamp (vehicle_soc_pct ch + (deliveredKwh / capKwh ch) * 100) 0 100
          \<and> vehicle_soc_pct ch' \<le> targetSoc ch
          \<and> vehicle_soc_pct ch' \<le> vehicle_target_soc_pct ch'"
proof -
  let ?dt = "dtH nowMs lastMs"
  let ?ch = "evcs_chargers m ! i"
  have dt: "0 < ?dt" by (rule dtH_pos)
  have ch': "evcs_chargers (fst (tick_physics hour ?dt (m, g))) ! i = fst (tick_charger ?dt ?ch)"
    using i by (simp add: tick_physics_chargers)
  note tc = tick_charger_charging[OF c, of ?dt]
  have pw: "meas_power_kw (fst (tick_charger ?dt ?ch)) = charge_power ?dt ?ch"
    unfolding tc by simp
  have en: "meas_energy_kwh (fst (tick_charger ?dt ?ch))
      = clamp (meas_energy_kwh ?ch + charge_power ?dt ?ch * ?dt * 0.96) 0 1000000"
    unfolding tc by simp
  have soc: "vehicle_soc_pct (fst (tick_charger ?dt ?ch))
      = clamp (vehicle_soc_pct ?ch + (charge_power ?dt ?ch * ?dt * 0.96 / capKwh ?ch) * 100) 0 100"
    unfolding tc by simp
  have step: "charge_power ?dt ?ch * ?dt \<le> (targetSoc ?ch - vehicle_soc_pct ?ch) / 100 * capKwh ?ch"
    using charge_power_step[OF dt, of ?ch] charging_need[OF c] by simp
  have le: "vehicle_soc_pct (fst (tick_charger ?dt ?ch)) \<le> targetSoc ?ch"
    unfolding soc using targetSoc_range[of ?ch] charging_no_overshoot[OF c dt]
    by (intro clamp_mono_le) simp_all
  have "targetSoc ?ch \<le> vehicle_target_soc_pct ?ch"
    using t by (simp add: targetSoc_def clamp_alt)
  then have le': "vehicle_soc_pct (fst (tick_charger ?dt ?ch)) \<le> vehicle_target_soc_pct ?ch"
    using le by linarith
  show ?thesis
    unfolding Let_def ch' tick_charger_fields pw
    using step en soc le le' by blast
qed

theorem charging_no_overshoot_in_tick_witness:
  "let ch' = evcs_chargers (fst (tick_physics 12 (dtH 1000 0)
                 (default_plant [lm6_c01], new_LcgRandom 1337))) ! 0
   in vehicle_soc_pct ch' \<le> vehicle_target_soc_pct ch'"
proof -
  have c: "is_charging (evcs_chargers (default_plant [lm6_c01]) ! 0)"
    by (simp add: default_plant_def is_charging_lm6_c01)
  have t: "0 \<le> vehicle_target_soc_pct (evcs_chargers (default_plant [lm6_c01]) ! 0)"
    by (simp add: default_plant_def lm6_c01_def)
  have i: "0 < length (evcs_chargers (default_plant [lm6_c01]))"
    by (simp add: default_plant_def)
  show ?thesis
    using charging_no_overshoot_in_tick[OF i c t, of 1000 0 12 "new_LcgRandom 1337"]
    by (simp add: Let_def)
qed

text \<open>
  C4 (as amended). With storage control enabled and non-negative power limits, the
  storage power of the tick lies in \<open>[-max_charge_kw, max_discharge_kw]\<close>; it is 0 when
  discharge is requested at \<open>soc_pct \<le> 0\<close> or charge is requested at \<open>soc_pct \<ge> 100\<close> and is
  the clamped request otherwise; the new SoC is the old one plus
  \<open>-power * dtH / capacity * 100\<close>, clamped to \<open>[0, 100]\<close>. At \<open>soc_pct = 0\<close> a discharge
  request gives power 0 and leaves the SoC at 0; a charge request gives the power
  \<open>max(-max_charge_kw, power_set_kw)\<close>, and the SoC increases exactly when
  \<open>max_charge_kw > 0\<close>.
\<close>

theorem storage_power_and_soc:
  assumes "storage_ctrl_enabled m" "0 \<le> storage_max_charge_kw m" "0 \<le> storage_max_discharge_kw m"
  shows "let dt = dtH nowMs lastMs; m' = tick_storage dt m; p = storage_power_kw m';
             req = storage_ctrl_power_set_kw m; soc = storage_soc_pct m;
             maxCh = storage_max_charge_kw m; maxDis = storage_max_discharge_kw m
         in - maxCh \<le> p \<and> p \<le> maxDis
          \<and> p = (if (soc \<le> 0 \<and> req > 0) \<or> (soc \<ge> 100 \<and> req < 0) then 0
                  else clamp req (- maxCh) maxDis)
          \<and> storage_soc_pct m'
              = clamp (soc + (- p * dt / max (1 / 1000000) (storage_capacity_kwh m)) * 100) 0 100
          \<and> (soc = 0 \<and> req > 0 \<longrightarrow> p = 0 \<and> storage_soc_pct m' = 0)
          \<and> (soc = 0 \<and> req < 0 \<longrightarrow>
               p = max (- maxCh) req \<and> (storage_soc_pct m' > soc \<longleftrightarrow> maxCh > 0))"
proof -
  let ?dt = "dtH nowMs lastMs"
  let ?cap = "max (1 / 1000000) (storage_capacity_kwh m)"
  have dt: "0 < ?dt" by (rule dtH_pos)
  have cap: "0 < ?cap" by (simp add: max_def)
  have p: "storage_power_kw (tick_storage ?dt m) = storagePower m"
    by (simp add: tick_storage_def Let_def)
  have soc: "storage_soc_pct (tick_storage ?dt m)
      = clamp (storage_soc_pct m + (- storagePower m * ?dt / ?cap) * 100) 0 100"
    using assms(1) by (simp add: tick_storage_def Let_def)
  have sp: "storagePower m =
      (if (storage_soc_pct m \<le> 0 \<and> storage_ctrl_power_set_kw m > 0)
          \<or> (storage_soc_pct m \<ge> 100 \<and> storage_ctrl_power_set_kw m < 0) then 0
       else clamp (storage_ctrl_power_set_kw m) (- storage_max_charge_kw m) (storage_max_discharge_kw m))"
    using assms by (auto simp: storagePower_def Let_def clamp_alt min_def max_def)
  have rng: "- storage_max_charge_kw m \<le> storagePower m \<and> storagePower m \<le> storage_max_discharge_kw m"
    using assms unfolding sp by (auto simp: clamp_alt min_def max_def)
  have dis: "storage_soc_pct m = 0 \<and> storage_ctrl_power_set_kw m > 0
      \<longrightarrow> storagePower m = 0 \<and> storage_soc_pct (tick_storage ?dt m) = 0"
    unfolding soc sp by (auto simp: clamp_alt)
  have ch: "storage_soc_pct m = 0 \<and> storage_ctrl_power_set_kw m < 0 \<longrightarrow>
      storagePower m = max (- storage_max_charge_kw m) (storage_ctrl_power_set_kw m)
      \<and> (storage_soc_pct (tick_storage ?dt m) > storage_soc_pct m \<longleftrightarrow> storage_max_charge_kw m > 0)"
  proof (intro impI conjI)
    assume a: "storage_soc_pct m = 0 \<and> storage_ctrl_power_set_kw m < 0"
    show q: "storagePower m = max (- storage_max_charge_kw m) (storage_ctrl_power_set_kw m)"
      using a assms unfolding sp by (auto simp: clamp_alt min_def max_def)
    show "storage_soc_pct (tick_storage ?dt m) > storage_soc_pct m \<longleftrightarrow> storage_max_charge_kw m > 0"
    proof (cases "storage_max_charge_kw m > 0")
      case True
      then have "storagePower m < 0" using a unfolding q by (simp add: max_def)
      then have "0 < - storagePower m * ?dt" using dt by (simp add: mult_neg_pos)
      then have "0 < - storagePower m * ?dt / ?cap" using cap by (rule divide_pos_pos)
      then have "0 < (- storagePower m * ?dt / ?cap) * 100" by (rule pos_times_100)
      then show ?thesis using a True unfolding soc by (simp add: clamp_alt min_def max_def)
    next
      case False
      then have "storage_max_charge_kw m = 0" using assms by simp
      then have "storagePower m = 0" using a unfolding q by (simp add: max_def)
      then show ?thesis using a False unfolding soc by (simp add: clamp_alt)
    qed
  qed
  show ?thesis unfolding Let_def p using rng sp soc dis ch by blast
qed

theorem storage_power_and_soc_witness:
  "storage_power_kw (tick_storage (dtH 1000 0)
      ((default_plant [])\<lparr>storage_soc_pct := 0, storage_ctrl_power_set_kw := - 10\<rparr>)) = - 10
   \<and> storage_soc_pct (tick_storage (dtH 1000 0)
      ((default_plant [])\<lparr>storage_soc_pct := 0, storage_ctrl_power_set_kw := - 10\<rparr>)) > 0"
  using storage_power_and_soc[of
      "(default_plant [])\<lparr>storage_soc_pct := 0, storage_ctrl_power_set_kw := - 10\<rparr>" 1000 0]
  by (simp add: Let_def default_plant_def clamp_alt dtH_def dtSec_def)

text \<open>
  C4 as stated fails where \<open>max_charge_kw = 0\<close> (a value the configuration and the command
  \<open>storage.max_charge_kw\<close> both allow): at \<open>soc_pct = 0\<close> the charge request of -10 kW is
  clamped to 0 and the SoC stays at 0.
\<close>

theorem storage_soc0_charge_counterexample:
  "storage_ctrl_enabled ((default_plant [])\<lparr>storage_soc_pct := 0, storage_max_charge_kw := 0,
      storage_ctrl_power_set_kw := - 10\<rparr>)
   \<and> storage_ctrl_power_set_kw ((default_plant [])\<lparr>storage_soc_pct := 0,
      storage_max_charge_kw := 0, storage_ctrl_power_set_kw := - 10\<rparr>) < 0
   \<and> storage_soc_pct ((default_plant [])\<lparr>storage_soc_pct := 0,
      storage_max_charge_kw := 0, storage_ctrl_power_set_kw := - 10\<rparr>) = 0
   \<and> storage_power_kw (fst (tick_physics 12 (dtH 1000 0)
        ((default_plant [])\<lparr>storage_soc_pct := 0, storage_max_charge_kw := 0,
           storage_ctrl_power_set_kw := - 10\<rparr>, new_LcgRandom 1337))) = 0
   \<and> storage_soc_pct (fst (tick_physics 12 (dtH 1000 0)
        ((default_plant [])\<lparr>storage_soc_pct := 0, storage_max_charge_kw := 0,
           storage_ctrl_power_set_kw := - 10\<rparr>, new_LcgRandom 1337))) = 0"
  by (simp add: tick_physics_storage tick_storage_def storagePower_def Let_def default_plant_def
      clamp_alt dtH_def dtSec_def)

text \<open>
  C5. After every tick: \<open>grid.available\<close> is what it was when the tick's physics started;
  if it is false, \<open>grid.power_kw\<close> is 0 and \<open>grid.over_limit\<close> is false, whatever the PV,
  the storage, the charge points, the devices and the base load are; if it is true,
  \<open>grid.over_limit\<close> holds exactly when the grid power of the tick exceeds
  \<open>limit_kw + 1e-6\<close>.
\<close>

theorem grid_blackout_invariant:
  "let m' = fst (tick_physics hour dt (m, g)) in
     grid_available m' = grid_available m
   \<and> (if grid_available m'
      then (grid_over_limit m' \<longleftrightarrow> grid_power_kw m' > grid_limit_kw m' + 1 / 1000000)
      else grid_power_kw m' = 0 \<and> \<not> grid_over_limit m')"
proof -
  obtain m1 g1 where a: "tick_pv hour (tick_tariff hour (m, g)) = (m1, g1)" by (cases "tick_pv hour (tick_tariff hour (m, g))")
  obtain m2 P E where b: "tick_evcs dt (tick_storage dt (tick_devices m1)) = (m2, P, E)"
    by (cases "tick_evcs dt (tick_storage dt (tick_devices m1))")
  have tp: "tick_physics hour dt (m, g) = tick_grid P (m2, g1)"
    by (simp add: tick_physics_def a b)
  have av: "grid_available m2 = grid_available m"
    using tick_physics_grid(1)[of hour dt m g] unfolding tp by (simp add: tick_grid_result)
  show ?thesis
    unfolding Let_def tp using av by (simp add: tick_grid_result)
qed


theorem grid_blackout_invariant_witness:
  "grid_power_kw (fst (tick_physics 12 (1 / 3600)
      ((default_plant [lm6_c01])\<lparr>grid_available := False\<rparr>, new_LcgRandom 1337))) = 0
   \<and> \<not> grid_over_limit (fst (tick_physics 12 (1 / 3600)
      ((default_plant [lm6_c01])\<lparr>grid_available := False\<rparr>, new_LcgRandom 1337)))"
  using grid_blackout_invariant[of 12 "1 / 3600"
      "(default_plant [lm6_c01])\<lparr>grid_available := False\<rparr>" "new_LcgRandom 1337"]
  by (simp add: Let_def)

text \<open>
  C7. One call of \<open>_setChanged\<close> either writes nothing and leaves the cache as it is, or
  writes the normalized value and stores it in the cache. NaN is treated as \<open>null\<close>. When
  the cached value and the candidate are both finite numbers, the candidate is written
  exactly when it differs from the cached value by more than \<open>1e-6\<close>; when they are not
  both numbers, exactly when they are not the same value. Hence of two consecutive
  numeric values for one id that differ by at most \<open>1e-6\<close> at most one is written (exactly
  one, the first, when the id has no cached value yet), and a numeric value that differs
  from the cached one by more than \<open>1e-6\<close> is always written.
\<close>

theorem publish_dedup:
  "setChanged k (JNumber NaN) c = setChanged k JNull c
   \<and> (setChanged k v c = (c, None) \<or>
      setChanged k v c = (c(k \<mapsto> (if v = JNumber NaN then JNull else v)),
                          Some (if v = JNumber NaN then JNull else v)))
   \<and> (c k = Some (JNumber (Fin p)) \<longrightarrow>
        setChanged k (JNumber (Fin a)) c =
          (if \<bar>a - p\<bar> > 1 / 1000000 then (c(k \<mapsto> JNumber (Fin a)), Some (JNumber (Fin a)))
           else (c, None)))
   \<and> (\<not> (\<exists>x y. (if v = JNumber NaN then JNull else v) = JNumber x
                 \<and> (case c k of None \<Rightarrow> JUndefined | Some q \<Rightarrow> q) = JNumber y) \<longrightarrow>
        (snd (setChanged k v c) \<noteq> None \<longleftrightarrow>
           (if v = JNumber NaN then JNull else v)
             \<noteq> (case c k of None \<Rightarrow> JUndefined | Some q \<Rightarrow> q)))
   \<and> (\<bar>a - b\<bar> \<le> 1 / 1000000 \<longrightarrow>
        length (snd (publish [(k, JNumber (Fin a)), (k, JNumber (Fin b))] c)) \<le> 1
        \<and> (c k = None \<longrightarrow>
             snd (publish [(k, JNumber (Fin a)), (k, JNumber (Fin b))] c) = [(k, JNumber (Fin a))]))
   \<and> (\<bar>a - b\<bar> > 1 / 1000000 \<and> c k = None \<longrightarrow>
        snd (publish [(k, JNumber (Fin a)), (k, JNumber (Fin b))] c)
          = [(k, JNumber (Fin a)), (k, JNumber (Fin b))])"
proof (intro conjI impI)
  show "setChanged k (JNumber NaN) c = setChanged k JNull c"
    by (simp add: setChanged_def Let_def)
next
  show "setChanged k v c = (c, None) \<or>
      setChanged k v c = (c(k \<mapsto> (if v = JNumber NaN then JNull else v)),
                          Some (if v = JNumber NaN then JNull else v))"
    by (rule setChanged_cases)
next
  assume "c k = Some (JNumber (Fin p))"
  then show "setChanged k (JNumber (Fin a)) c =
          (if \<bar>a - p\<bar> > 1 / 1000000 then (c(k \<mapsto> JNumber (Fin a)), Some (JNumber (Fin a)))
           else (c, None))"
    by (rule setChanged_number)
next
  assume "\<not> (\<exists>x y. (if v = JNumber NaN then JNull else v) = JNumber x
                 \<and> (case c k of None \<Rightarrow> JUndefined | Some q \<Rightarrow> q) = JNumber y)"
  then show "snd (setChanged k v c) \<noteq> None \<longleftrightarrow>
           (if v = JNumber NaN then JNull else v)
             \<noteq> (case c k of None \<Rightarrow> JUndefined | Some q \<Rightarrow> q)"
    by (rule setChanged_other)
next
  assume d: "\<bar>a - b\<bar> \<le> 1 / 1000000"
  show "length (snd (publish [(k, JNumber (Fin a)), (k, JNumber (Fin b))] c)) \<le> 1"
  proof (cases "setChanged k (JNumber (Fin a)) c = (c, None)")
    case True
    then show ?thesis
      using setChanged_cases[of k "JNumber (Fin b)" c] by auto
  next
    case False
    then have e: "setChanged k (JNumber (Fin a)) c
        = (c(k \<mapsto> JNumber (Fin a)), Some (JNumber (Fin a)))"
      using setChanged_cases[of k "JNumber (Fin a)" c] by simp
    have "setChanged k (JNumber (Fin b)) (c(k \<mapsto> JNumber (Fin a))) = (c(k \<mapsto> JNumber (Fin a)), None)"
      using d setChanged_number[of "c(k \<mapsto> JNumber (Fin a))" k a b] by (simp add: abs_minus_commute)
    then show ?thesis using e by simp
  qed
next
  assume d: "\<bar>a - b\<bar> \<le> 1 / 1000000" and f: "c k = None"
  have e: "setChanged k (JNumber (Fin a)) c = (c(k \<mapsto> JNumber (Fin a)), Some (JNumber (Fin a)))"
    using f setChanged_fresh[of c k "JNumber (Fin a)"] by simp
  have "setChanged k (JNumber (Fin b)) (c(k \<mapsto> JNumber (Fin a))) = (c(k \<mapsto> JNumber (Fin a)), None)"
    using d setChanged_number[of "c(k \<mapsto> JNumber (Fin a))" k a b] by (simp add: abs_minus_commute)
  then show "snd (publish [(k, JNumber (Fin a)), (k, JNumber (Fin b))] c) = [(k, JNumber (Fin a))]"
    using e by simp
next
  assume "\<bar>a - b\<bar> > 1 / 1000000 \<and> c k = None"
  then have d: "\<bar>a - b\<bar> > 1 / 1000000" and f: "c k = None" by simp_all
  have e: "setChanged k (JNumber (Fin a)) c = (c(k \<mapsto> JNumber (Fin a)), Some (JNumber (Fin a)))"
    using f setChanged_fresh[of c k "JNumber (Fin a)"] by simp
  have "setChanged k (JNumber (Fin b)) (c(k \<mapsto> JNumber (Fin a)))
      = ((c(k \<mapsto> JNumber (Fin a)))(k \<mapsto> JNumber (Fin b)), Some (JNumber (Fin b)))"
    using d setChanged_number[of "c(k \<mapsto> JNumber (Fin a))" k a b] by (simp add: abs_minus_commute)
  then show "snd (publish [(k, JNumber (Fin a)), (k, JNumber (Fin b))] c)
          = [(k, JNumber (Fin a)), (k, JNumber (Fin b))]"
    using e by simp
qed

theorem publish_dedup_witness:
  "snd (publish [(''grid.power_kw'', JNumber (Fin 8000)),
                 (''grid.power_kw'', JNumber (Fin 8000.0000005))] Map.empty)
     = [(''grid.power_kw'', JNumber (Fin 8000))]
   \<and> snd (publish [(''grid.power_kw'', JNumber (Fin 8000)),
                   (''grid.power_kw'', JNumber (Fin 8001))] Map.empty)
     = [(''grid.power_kw'', JNumber (Fin 8000)), (''grid.power_kw'', JNumber (Fin 8001))]"
  using publish_dedup[of "''grid.power_kw''" Map.empty JUndefined 0 8000 "8000.0000005"]
    publish_dedup[of "''grid.power_kw''" Map.empty JUndefined 0 8000 8001]
  by simp

text \<open>
  C9. \<open>parseDepartureToTimestamp\<close> returns \<open>null\<close> for a value that is not a string. For a
  string that contains \<open>T\<close> (after trimming) and is a valid date it returns that date. For
  a string of the form \<open>H:MM\<close> or \<open>HH:MM\<close> (hours clamped to 23, minutes to 59) it returns
  the next instant strictly after \<open>now\<close> with that local time of day: today's, or
  tomorrow's when today's is not after \<open>now\<close>. For every other string it returns \<open>null\<close>.
  The tick never reads \<open>departure_ts\<close>: what it does to a charge point (power, energy,
  status, SoC) is the same whatever the deadline is, \<open>null\<close> included, so charging is
  decided by the SoC-against-target check and the other guards alone.
\<close>

theorem departure_parsing:
  "((\<forall>s. v \<noteq> JString s) \<longrightarrow> parseDepartureToTimestamp rt v now = None)
   \<and> (CHR ''T'' \<in> set (trim s) \<and> DateParse rt (trim s) = Some t \<longrightarrow>
        parseDepartureToTimestamp rt (JString s) now = Some t)
   \<and> ((CHR ''T'' \<notin> set (trim s) \<or> DateParse rt (trim s) = None) \<and> match_HHMM (trim s) = None \<longrightarrow>
        parseDepartureToTimestamp rt (JString s) now = None)
   \<and> ((CHR ''T'' \<notin> set (trim s) \<or> DateParse rt (trim s) = None)
        \<and> match_HHMM (trim s) = Some (h, m) \<longrightarrow>
        (\<exists>c. parseDepartureToTimestamp rt (JString s) now = Some c
           \<and> now < c \<and> c \<le> now + dayMs
           \<and> (c + tzOffsetMs rt) mod dayMs
               = int (min 23 (digits_val h)) * 3600000 + int (min 59 (digits_val m)) * 60000
           \<and> c = (let today = setHours (tzOffsetMs rt) now (int (min 23 (digits_val h)))
                                 (int (min 59 (digits_val m)))
                   in if today \<le> now then today + dayMs else today)))
   \<and> tick_charger dt (ch\<lparr>vehicle_departure_ts := d\<rparr>)
       = (case tick_charger dt ch of (ch', p, e) \<Rightarrow> (ch'\<lparr>vehicle_departure_ts := d\<rparr>, p, e))"
proof (intro conjI impI)
  assume "\<forall>s. v \<noteq> JString s"
  then show "parseDepartureToTimestamp rt v now = None" by (rule parse_not_string)
next
  assume "CHR ''T'' \<in> set (trim s) \<and> DateParse rt (trim s) = Some t"
  then show "parseDepartureToTimestamp rt (JString s) now = Some t" by (simp add: parse_iso)
next
  assume "(CHR ''T'' \<notin> set (trim s) \<or> DateParse rt (trim s) = None) \<and> match_HHMM (trim s) = None"
  then show "parseDepartureToTimestamp rt (JString s) now = None"
    using parse_unparseable[of s rt now] by blast
next
  assume a: "(CHR ''T'' \<notin> set (trim s) \<or> DateParse rt (trim s) = None)
        \<and> match_HHMM (trim s) = Some (h, m)"
  let ?hh = "int (min 23 (digits_val h))"
  let ?mm = "int (min 59 (digits_val m))"
  let ?today = "setHours (tzOffsetMs rt) now ?hh ?mm"
  let ?c = "if ?today \<le> now then ?today + dayMs else ?today"
  have b: "0 \<le> ?hh" "?hh \<le> 23" "0 \<le> ?mm" "?mm \<le> 59" by simp_all
  note sh = setHours_time_of_day[where off = "tzOffsetMs rt" and now = now, OF b]
  have p: "parseDepartureToTimestamp rt (JString s) now = Some ?c"
    using a parse_hhmm[of s rt h m now] by (simp add: Let_def)
  have r: "now < ?c \<and> ?c \<le> now + dayMs" using sh(3,4) by auto
  have tod: "(?c + tzOffsetMs rt) mod dayMs = ?hh * 3600000 + ?mm * 60000"
    using sh(1,2) by simp
  show "\<exists>c. parseDepartureToTimestamp rt (JString s) now = Some c
           \<and> now < c \<and> c \<le> now + dayMs
           \<and> (c + tzOffsetMs rt) mod dayMs = ?hh * 3600000 + ?mm * 60000
           \<and> c = (let today = ?today in if today \<le> now then today + dayMs else today)"
    unfolding Let_def using p r tod by blast
next
  show "tick_charger dt (ch\<lparr>vehicle_departure_ts := d\<rparr>)
       = (case tick_charger dt ch of (ch', p, e) \<Rightarrow> (ch'\<lparr>vehicle_departure_ts := d\<rparr>, p, e))"
    by (rule tick_charger_departure_ts)
qed

theorem departure_parsing_witness:
  "(\<exists>c. parseDepartureToTimestamp test_runtime (JString '' 06:15 '') 25200000 = Some c
      \<and> 25200000 < c \<and> c \<le> 25200000 + dayMs
      \<and> (c + tzOffsetMs test_runtime) mod dayMs = 6 * 3600000 + 15 * 60000)
   \<and> parseDepartureToTimestamp test_runtime (JString ''6.15'') 25200000 = None"
proof -
  have t: "CHR ''T'' \<notin> set (trim '' 06:15 '')" by (simp add: trim_def is_ws_def)
  have d: "digits_val ''06'' = 6" "digits_val ''15'' = 15" by (simp_all add: digits_val_def digit_val_def)
  have u: "CHR ''T'' \<notin> set (trim ''6.15'')" "match_HHMM (trim ''6.15'') = None"
    by (simp_all add: trim_def is_ws_def is_digit_def)
  show ?thesis
    using departure_parsing[of JNull test_runtime 25200000 "'' 06:15 ''" 0 "''06''" "''15''"]
      departure_parsing[of JNull test_runtime 25200000 "''6.15''" 0 "''06''" "''15''"]
      t match_0615 u
    by (simp add: d Let_def)
qed

text \<open>
  C10. \<open>_normalizePowerKw\<close> divides a finite number by 1000 and turns NaN and the
  infinities into 0. A command write to \<open>storage.ctrl.power_set_kw\<close>, to
  \<open>heatpump\<close>/\<open>chp\<close>/\<open>generator.ctrl.power_set_kw\<close> stores the normalized value, and a write
  to \<open>evcs.cNN.ctrl.limit_kw\<close> of an existing charge point stores the normalized value
  clamped to \<open>[0, 10000]\<close>. Every other numeric field stores the number received, clamped
  to the field's range and not divided: the grid, tariff, PV and storage fields of the
  model and the priority and vehicle fields of a charge point.
\<close>

theorem command_power_scaling:
  "normalizePowerKw rt (JNumber (Fin w)) = w / 1000
   \<and> normalizePowerKw rt (JNumber NaN) = 0
   \<and> normalizePowerKw rt (JNumber PosInf) = 0
   \<and> normalizePowerKw rt (JNumber NegInf) = 0
   \<and> applyWrite_model rt now ''storage.ctrl.power_set_kw'' value m
       = (True, m\<lparr>storage_ctrl_power_set_kw := normalizePowerKw rt value\<rparr>)
   \<and> applyWrite_model rt now ''heatpump.ctrl.power_set_kw'' value m
       = (True, m\<lparr>heatpump_ctrl_power_set_kw := normalizePowerKw rt value\<rparr>)
   \<and> applyWrite_model rt now ''chp.ctrl.power_set_kw'' value m
       = (True, m\<lparr>chp_ctrl_power_set_kw := normalizePowerKw rt value\<rparr>)
   \<and> applyWrite_model rt now ''generator.ctrl.power_set_kw'' value m
       = (True, m\<lparr>generator_ctrl_power_set_kw := normalizePowerKw rt value\<rparr>)
   \<and> (is_digit d1 \<and> is_digit d2
        \<and> find (\<lambda>ch. cid ch = [CHR ''c'', d1, d2]) (evcs_chargers m) = Some ch \<longrightarrow>
        applyWrite_model rt now (''evcs.'' @ [CHR ''c'', d1, d2] @ ''.ctrl.limit_kw'') value m
        = (True, m\<lparr>evcs_chargers :=
             update_first (\<lambda>ch. cid ch = [CHR ''c'', d1, d2])
               (ch\<lparr>ctrl_limit_kw := clamp (normalizePowerKw rt value) 0 10000\<rparr>)
               (evcs_chargers m)\<rparr>))
   \<and> applyWrite_model rt now ''grid.limit_kw'' (JNumber (Fin w)) m
       = (True, m\<lparr>grid_limit_kw := clamp w 1 5000\<rparr>)
   \<and> applyWrite_model rt now ''grid.base_load_kw'' (JNumber (Fin w)) m
       = (True, m\<lparr>grid_base_load_kw := clamp w 0 5000\<rparr>)
   \<and> applyWrite_model rt now ''tariff.price_ct_per_kwh'' (JNumber (Fin w)) m
       = (True, m\<lparr>tariff_price_ct_per_kwh := clamp w (- 500) 500\<rparr>)
   \<and> applyWrite_model rt now ''pv.installed_kwp'' (JNumber (Fin w)) m
       = (True, m\<lparr>pv_installed_kwp := clamp w 0 5000\<rparr>)
   \<and> applyWrite_model rt now ''pv.weather_factor'' (JNumber (Fin w)) m
       = (True, m\<lparr>pv_weather_factor := clamp w 0 1\<rparr>)
   \<and> applyWrite_model rt now ''pv.override.power_kw'' (JNumber (Fin w)) m
       = (True, m\<lparr>pv_override_power_kw := clamp w 0 100000\<rparr>)
   \<and> applyWrite_model rt now ''storage.capacity_kwh'' (JNumber (Fin w)) m
       = (True, m\<lparr>storage_capacity_kwh := clamp w 1 50000\<rparr>)
   \<and> applyWrite_model rt now ''storage.max_charge_kw'' (JNumber (Fin w)) m
       = (True, m\<lparr>storage_max_charge_kw := clamp w 0 50000\<rparr>)
   \<and> applyWrite_model rt now ''storage.max_discharge_kw'' (JNumber (Fin w)) m
       = (True, m\<lparr>storage_max_discharge_kw := clamp w 0 50000\<rparr>)
   \<and> applyWrite_model rt now ''storage.soc_pct'' (JNumber (Fin w)) m
       = (True, m\<lparr>storage_soc_pct := clamp w 0 100\<rparr>)
   \<and> applyWrite_charger rt now ''ctrl.priority'' (JNumber (Fin w)) ch
       = Some (ch\<lparr>ctrl_priority := clamp w 1 10\<rparr>)
   \<and> applyWrite_charger rt now ''vehicle.soc_pct'' (JNumber (Fin w)) ch
       = Some (ch\<lparr>vehicle_soc_pct := clamp w 0 100\<rparr>)
   \<and> applyWrite_charger rt now ''vehicle.capacity_kwh'' (JNumber (Fin w)) ch
       = Some (ch\<lparr>vehicle_capacity_kwh := clamp w 1 1000\<rparr>)
   \<and> applyWrite_charger rt now ''vehicle.max_charge_kw'' (JNumber (Fin w)) ch
       = Some (ch\<lparr>vehicle_max_charge_kw := clamp w 0 2000\<rparr>)
   \<and> applyWrite_charger rt now ''vehicle.target_soc_pct'' (JNumber (Fin w)) ch
       = Some (ch\<lparr>vehicle_target_soc_pct := clamp w 0 100\<rparr>)"
proof -
  have evcs: "is_digit d1 \<and> is_digit d2
        \<and> find (\<lambda>ch. cid ch = [CHR ''c'', d1, d2]) (evcs_chargers m) = Some ch \<longrightarrow>
        applyWrite_model rt now (''evcs.'' @ [CHR ''c'', d1, d2] @ ''.ctrl.limit_kw'') value m
        = (True, m\<lparr>evcs_chargers :=
             update_first (\<lambda>ch. cid ch = [CHR ''c'', d1, d2])
               (ch\<lparr>ctrl_limit_kw := clamp (normalizePowerKw rt value) 0 10000\<rparr>)
               (evcs_chargers m)\<rparr>)"
  proof
    assume a: "is_digit d1 \<and> is_digit d2
        \<and> find (\<lambda>ch. cid ch = [CHR ''c'', d1, d2]) (evcs_chargers m) = Some ch"
    have "applyWrite_model rt now (''evcs.'' @ [CHR ''c'', d1, d2] @ ''.'' @ ''ctrl.limit_kw'') value m
        = (True, m\<lparr>evcs_chargers :=
             update_first (\<lambda>ch. cid ch = [CHR ''c'', d1, d2])
               (ch\<lparr>ctrl_limit_kw := clamp (normalizePowerKw rt value) 0 10000\<rparr>)
               (evcs_chargers m)\<rparr>)"
      using a by (intro applyWrite_model_evcs) (simp_all add: applyWrite_charger_numeric)
    then show "applyWrite_model rt now (''evcs.'' @ [CHR ''c'', d1, d2] @ ''.ctrl.limit_kw'') value m
        = (True, m\<lparr>evcs_chargers :=
             update_first (\<lambda>ch. cid ch = [CHR ''c'', d1, d2])
               (ch\<lparr>ctrl_limit_kw := clamp (normalizePowerKw rt value) 0 10000\<rparr>)
               (evcs_chargers m)\<rparr>)"
      by simp
  qed
  show ?thesis
    by (intro conjI evcs)
      (simp_all only: normalizePowerKw_simps applyWrite_model_storage applyWrite_model_devices
        applyWrite_model_unscaled applyWrite_charger_numeric clampV_Fin)
qed

theorem command_power_scaling_witness:
  "applyWrite_model test_runtime 0 ''evcs.c01.ctrl.limit_kw'' (JNumber (Fin 7000))
       (default_plant [lm6_c01])
     = (True, (default_plant [lm6_c01])\<lparr>evcs_chargers := [lm6_c01\<lparr>ctrl_limit_kw := 7\<rparr>]\<rparr>)
   \<and> applyWrite_model test_runtime 0 ''storage.ctrl.power_set_kw'' (JNumber (Fin (- 5000)))
       (default_plant [lm6_c01])
     = (True, (default_plant [lm6_c01])\<lparr>storage_ctrl_power_set_kw := - 5\<rparr>)
   \<and> applyWrite_model test_runtime 0 ''storage.max_charge_kw'' (JNumber (Fin 150))
       (default_plant [lm6_c01])
     = (True, (default_plant [lm6_c01])\<lparr>storage_max_charge_kw := 150\<rparr>)"
proof -
  have f: "find (\<lambda>ch. cid ch = [CHR ''c'', CHR ''0'', CHR ''1'']) (evcs_chargers (default_plant [lm6_c01]))
      = Some lm6_c01"
    by (simp add: default_plant_def lm6_c01_def)
  have d: "is_digit CHR ''0'' \<and> is_digit CHR ''1''" by (simp add: is_digit_def)
  have u: "update_first (\<lambda>ch. cid ch = [CHR ''c'', CHR ''0'', CHR ''1''])
             (lm6_c01\<lparr>ctrl_limit_kw := 7\<rparr>) (evcs_chargers (default_plant [lm6_c01]))
           = [lm6_c01\<lparr>ctrl_limit_kw := 7\<rparr>]"
    by (simp add: default_plant_def lm6_c01_def)
  note T = command_power_scaling[of test_runtime "- 5000" 0 "JNumber (Fin (- 5000))"
      "default_plant [lm6_c01]" "CHR ''0''" "CHR ''1''" lm6_c01]
  note U = command_power_scaling[of test_runtime 7000 0 "JNumber (Fin 7000)"
      "default_plant [lm6_c01]" "CHR ''0''" "CHR ''1''" lm6_c01]
  note V = command_power_scaling[of test_runtime 150 0 "JNumber (Fin 150)"
      "default_plant [lm6_c01]" "CHR ''0''" "CHR ''1''" lm6_c01]
  have a: "applyWrite_model test_runtime 0 ''evcs.c01.ctrl.limit_kw'' (JNumber (Fin 7000))
       (default_plant [lm6_c01])
     = (True, (default_plant [lm6_c01])\<lparr>evcs_chargers := [lm6_c01\<lparr>ctrl_limit_kw := 7\<rparr>]\<rparr>)"
    using U f d u by (simp add: clamp_alt)
  have b: "applyWrite_model test_runtime 0 ''storage.ctrl.power_set_kw'' (JNumber (Fin (- 5000)))
       (default_plant [lm6_c01])
     = (True, (default_plant [lm6_c01])\<lparr>storage_ctrl_power_set_kw := - 5\<rparr>)"
    using T by simp
  have c: "applyWrite_model test_runtime 0 ''storage.max_charge_kw'' (JNumber (Fin 150))
       (default_plant [lm6_c01])
     = (True, (default_plant [lm6_c01])\<lparr>storage_max_charge_kw := 150\<rparr>)"
    using V by (simp add: clamp_alt)
  show ?thesis using a b c by blast
qed

text \<open>
  C6. The claim: applying a scenario with \<open>start = false\<close> leaves \<open>phase = "applied"\<close> and
  \<open>running = false\<close>; applying a scenario other than \<open>baseline\<close> with \<open>start = true\<close> sets
  \<open>running = true\<close> with \<open>duration_s\<close> the configured duration; once
  \<open>elapsed \<ge> duration_s\<close>, \<open>running\<close> becomes false, \<open>phase\<close> becomes \<open>done\<close> and the
  finish signal is set and consumed exactly once; a timeline that finishes before the
  configured duration has its last state held until the duration elapses.

  \<open>_applyScenario\<close> does not get that far. On an adapter with model and configuration its
  first statement calls \<open>this._normalizeScenarioId\<close>, which the class of \<open>main.js\<close> does
  not define, and the call raises a \<open>TypeError\<close> before anything is assigned. Below, on the
  adapter after \<open>onReady\<close>: applying \<open>baseline\<close> with \<open>start = false\<close> raises the error and
  leaves the phase \<open>idle\<close>, not \<open>applied\<close>; applying \<open>pv_cloud_ramp_timeline\<close> with
  \<open>start = true\<close> raises the error and leaves \<open>running = false\<close> and \<open>duration_s = 0\<close>; the
  timeline then does nothing, two hours later as well, so no finish signal is set.
\<close>

theorem applyScenario_raises_TypeError:
  "applyScenario test_runtime test_code 1000 ''baseline'' False (ready_adapter config_2h)
     = Thrown TypeError (ready_adapter config_2h)
   \<and> phase (scenario (ready_adapter config_2h)) = ''idle''
   \<and> applyScenario test_runtime test_code 1000 ''pv_cloud_ramp_timeline'' True
        (ready_adapter config_2h)
     = Thrown TypeError (ready_adapter config_2h)
   \<and> running (scenario (ready_adapter config_2h)) = False
   \<and> duration_s (scenario (ready_adapter config_2h)) = 0
   \<and> runScenarioTimeline test_runtime test_code 7201000 (ready_adapter config_2h)
     = ready_adapter config_2h
   \<and> justFinished (scenario (ready_adapter config_2h)) = False"
proof -
  have r: "model (ready_adapter config_2h) \<noteq> None" "cfg (ready_adapter config_2h) \<noteq> None"
    by (simp_all add: ready_adapter_2h)
  have n: "normalizeScenarioId test_code = None" by (simp add: test_code_def)
  have s: "phase (scenario (ready_adapter config_2h)) = ''idle''"
    "running (scenario (ready_adapter config_2h)) = False"
    "duration_s (scenario (ready_adapter config_2h)) = 0"
    "justFinished (scenario (ready_adapter config_2h)) = False"
    by (simp_all add: ready_adapter_2h initial_adapter_def)
  have t: "runScenarioTimeline test_runtime test_code 7201000 (ready_adapter config_2h)
     = ready_adapter config_2h"
    by (rule runScenarioTimeline_idle) (simp add: s)
  show ?thesis
    using applyScenario_throws[OF r n, of test_runtime 1000 "''baseline''" False]
      applyScenario_throws[OF r n, of test_runtime 1000 "''pv_cloud_ramp_timeline''" True] s t
    by simp
qed




end
